theory Spec2Isabelle
  imports Complex_Main "HOL-Library.Product_Lexorder"
begin

section \<open>Priority tables (src/src/utils/priority.js)\<close>

text \<open>
  \<^verbatim>\<open>PRIORITY_LEVELS\<close> and the \<^verbatim>\<open>priorityMap\<close> of
  \<^verbatim>\<open>getMinPriorityForReallocation\<close> are object literals. A property read
  \<^verbatim>\<open>obj[key]\<close> on an object literal first looks at the object's own properties
  and then follows the prototype chain to \<^verbatim>\<open>Object.prototype\<close>, whose members
  are functions (or, for \<^verbatim>\<open>__proto__\<close>, an object). A read therefore yields a
  number (an own property), an inherited member, or \<^verbatim>\<open>undefined\<close>.
\<close>

datatype js_value = Num int | Inherited string

definition objectPrototypeNames :: "string list" where
  "objectPrototypeNames =
     [''constructor'', ''__defineGetter__'', ''__defineSetter__'', ''hasOwnProperty'',
      ''__lookupGetter__'', ''__lookupSetter__'', ''isPrototypeOf'',
      ''propertyIsEnumerable'', ''toString'', ''valueOf'', ''__proto__'',
      ''toLocaleString'']"

text \<open>\<^verbatim>\<open>obj[key]\<close>: \<open>None\<close> is \<^verbatim>\<open>undefined\<close>.\<close>

definition getProperty :: "(string \<times> int) list \<Rightarrow> string \<Rightarrow> js_value option" where
  "getProperty obj key =
     (case map_of obj key of
        Some n \<Rightarrow> Some (Num n)
      | None \<Rightarrow> if key \<in> set objectPrototypeNames then Some (Inherited key) else None)"

text \<open>Truthiness: \<^verbatim>\<open>0\<close> is falsy, functions and objects are truthy.\<close>

fun truthy :: "js_value \<Rightarrow> bool" where
  "truthy (Num n) = (n \<noteq> 0)"
| "truthy (Inherited k) = True"

text \<open>\<^verbatim>\<open>v || 0\<close> for a property read \<open>v\<close>.\<close>

definition orZero :: "js_value option \<Rightarrow> js_value" where
  "orZero v = (case v of None \<Rightarrow> Num 0 | Some x \<Rightarrow> if truthy x then x else Num 0)"

definition PRIORITY_LEVELS :: "(string \<times> int) list" where
  "PRIORITY_LEVELS =
     [(''emergency'', 100), (''paid_priority'', 80), (''follow_up'', 60),
      (''online'', 40), (''walk_in'', 20)]"

definition calculatePriorityScore :: "string \<Rightarrow> js_value" where
  "calculatePriorityScore source = orZero (getProperty PRIORITY_LEVELS source)"

definition priorityMap :: "(string \<times> int) list" where
  "priorityMap =
     [(''emergency'', 90), (''paid_priority'', 70), (''follow_up'', 50),
      (''online'', 30), (''walk_in'', 10)]"

definition getMinPriorityForReallocation :: "string \<Rightarrow> js_value" where
  "getMinPriorityForReallocation source = orZero (getProperty priorityMap source)"

text \<open>
  Comparison of a stored (numeric) score with a JavaScript value. A function or object
  operand converts to \<^verbatim>\<open>NaN\<close>, and every comparison with \<^verbatim>\<open>NaN\<close> is false.
\<close>

fun js_lt :: "int \<Rightarrow> js_value \<Rightarrow> bool" where
  "js_lt a (Num b) = (a < b)"
| "js_lt a (Inherited k) = False"

fun js_ge :: "int \<Rightarrow> js_value \<Rightarrow> bool" where
  "js_ge a (Num b) = (a \<ge> b)"
| "js_ge a (Inherited k) = False"

section \<open>Data model (the Mongoose schemas)\<close>

type_synonym oid = nat
type_synonym time = int

text \<open>Times are milliseconds since the epoch, as \<^verbatim>\<open>Date\<close> arithmetic yields them.\<close>

datatype source = Emergency | PaidPriority | FollowUp | Online | WalkIn

fun sourceName :: "source \<Rightarrow> string" where
  "sourceName Emergency = ''emergency''"
| "sourceName PaidPriority = ''paid_priority''"
| "sourceName FollowUp = ''follow_up''"
| "sourceName Online = ''online''"
| "sourceName WalkIn = ''walk_in''"

definition parseSource :: "string \<Rightarrow> source option" where
  "parseSource s =
     (if s = ''emergency'' then Some Emergency
      else if s = ''paid_priority'' then Some PaidPriority
      else if s = ''follow_up'' then Some FollowUp
      else if s = ''online'' then Some Online
      else if s = ''walk_in'' then Some WalkIn
      else None)"

datatype slot_status = Available | Full | Closed | SlotCancelled

datatype token_status = Booked | CheckedIn | Completed | NoShow | Cancelled

datatype waiting_status = Waiting | Allocated | WaitingCancelled | Expired

text \<open>
  The Slot schema (src/unnamed/part_001). \<^verbatim>\<open>day\<close> and \<^verbatim>\<open>createdAt\<close> are never read by the
  services and are left out.
\<close>

record slot =
  s_id :: oid
  s_doctorId :: oid
  startTime :: time
  endTime :: time
  maxCapacity :: int
  currentOccupancy :: int
  s_status :: slot_status
  date :: time
  allocatedTokens :: "oid list"

text \<open>
  The Token schema (the second schema of src/src/models/Doctor.js).
  \<^verbatim>\<open>tokenNumber\<close>, \<^verbatim>\<open>reason\<close> and \<^verbatim>\<open>notes\<close> are
  carried along unread and are left out; \<open>updatedAt\<close> is the timestamp the schema option
  \<^verbatim>\<open>timestamps: true\<close> maintains on every save that writes.
\<close>

record token =
  t_id :: oid
  t_patientId :: oid
  t_doctorId :: oid
  slotId :: oid
  t_source :: source
  t_priorityScore :: int
  t_status :: token_status
  appointmentTime :: time
  isReallocation :: bool
  originalSlotId :: "oid option"
  cancellationReason :: "string option"
  checkedInAt :: "time option"
  completedAt :: "time option"
  updatedAt :: time

text \<open>
  The Waiting schema (src/src/models/Waiting.js), again without \<^verbatim>\<open>reason\<close> and
  \<^verbatim>\<open>notes\<close>.
\<close>

record waiting =
  w_id :: oid
  w_patientId :: oid
  w_doctorId :: oid
  w_source :: source
  w_priorityScore :: int
  preferredDate :: "time option"
  w_status :: waiting_status
  queuePosition :: int
  allocatedTokenId :: "oid option"
  expiresAt :: time
  w_createdAt :: time

text \<open>
  The database: the three collections in insertion order (the order an unsorted
  \<^verbatim>\<open>find\<close> returns), and the next fresh \<^verbatim>\<open>_id\<close>.
\<close>

record db =
  slots :: "slot list"
  tokens :: "token list"
  waitings :: "waiting list"
  nextId :: oid

datatype error =
    TokenNotFound
  | SlotNotFound
  | WaitingNotFound
  | NotCancellable
  | AlreadyStarted
  | OnlyCancelledRefund
  | InvalidStatus
  | ValidationFailed
  | NoActiveSlot
  | SlotDoctorMismatch
  | CannotAccommodate
  | CastError

text \<open>
  A \<^verbatim>\<open>catch\<close> block that throws a new \<^verbatim>\<open>Error\<close> with a longer message
  keeps the error value here.
\<close>

subsection \<open>Collection primitives\<close>

definition findSlotById :: "db \<Rightarrow> oid \<Rightarrow> slot option" where
  "findSlotById d i = find (\<lambda>s. s_id s = i) (slots d)"

definition findTokenById :: "db \<Rightarrow> oid \<Rightarrow> token option" where
  "findTokenById d i = find (\<lambda>t. t_id t = i) (tokens d)"

definition findWaitingById :: "db \<Rightarrow> oid \<Rightarrow> waiting option" where
  "findWaitingById d i = find (\<lambda>w. w_id w = i) (waitings d)"

text \<open>\<^verbatim>\<open>doc.save()\<close> of a document that was read from its collection.\<close>

definition saveSlot :: "db \<Rightarrow> slot \<Rightarrow> db" where
  "saveSlot d s = d\<lparr>slots := map (\<lambda>x. if s_id x = s_id s then s else x) (slots d)\<rparr>"

definition saveToken :: "db \<Rightarrow> token \<Rightarrow> db" where
  "saveToken d t = d\<lparr>tokens := map (\<lambda>x. if t_id x = t_id t then t else x) (tokens d)\<rparr>"

text \<open>
  \<^verbatim>\<open>token.save()\<close> after assignments to a token that was read as \<open>old\<close>: when no
  path has changed nothing is written; otherwise the \<^verbatim>\<open>timestamps\<close> option sets
  \<^verbatim>\<open>updatedAt\<close>. \<open>touched\<close> is the token object after the save.
\<close>

definition touched :: "token \<Rightarrow> token \<Rightarrow> time \<Rightarrow> token" where
  "touched old new now = (if new = old then old else new\<lparr>updatedAt := now\<rparr>)"

definition saveTokenChanges :: "db \<Rightarrow> token \<Rightarrow> token \<Rightarrow> time \<Rightarrow> db" where
  "saveTokenChanges d old new now =
     (if new = old then d else saveToken d (touched old new now))"

text \<open>
  A save writes the modified paths only. The waiting documents of a queue snapshot are
  saved after \<^verbatim>\<open>updateQueuePositions\<close> has renumbered the stored ones, so their
  saves are modelled as an update of the stored document.
\<close>

definition updateWaiting :: "db \<Rightarrow> oid \<Rightarrow> (waiting \<Rightarrow> waiting) \<Rightarrow> db" where
  "updateWaiting d i f = d\<lparr>waitings := map (\<lambda>x. if w_id x = i then f x else x) (waitings d)\<rparr>"

text \<open>\<^verbatim>\<open>save()\<close> of a new document.\<close>

definition insertToken :: "db \<Rightarrow> token \<Rightarrow> db" where
  "insertToken d t = d\<lparr>tokens := tokens d @ [t], nextId := Suc (nextId d)\<rparr>"

definition insertWaiting :: "db \<Rightarrow> waiting \<Rightarrow> db" where
  "insertWaiting d w = d\<lparr>waitings := waitings d @ [w], nextId := Suc (nextId d)\<rparr>"

text \<open>\<^verbatim>\<open>findOne(q).sort({date: 1, startTime: 1})\<close>.\<close>

definition findOneSlot :: "(slot \<Rightarrow> bool) \<Rightarrow> slot list \<Rightarrow> slot option" where
  "findOneSlot q ss =
     (case sort_key (\<lambda>s. (date s, startTime s)) (filter q ss) of
        [] \<Rightarrow> None
      | s # rest \<Rightarrow> Some s)"

text \<open>
  \<^verbatim>\<open>sortByPriority\<close>: \<^verbatim>\<open>Array.prototype.sort\<close> is stable, and so is
  \<open>sort_key\<close>; descending by score.
\<close>

definition sortByPriority :: "token list \<Rightarrow> token list" where
  "sortByPriority ts = sort_key (\<lambda>t. - t_priorityScore t) ts"

text \<open>\<^verbatim>\<open>populate('allocatedTokens')\<close>: references without a document are dropped.\<close>

definition populate :: "db \<Rightarrow> oid list \<Rightarrow> token list" where
  "populate d ids = List.map_filter (findTokenById d) ids"

section \<open>AllocationService\<close>

text \<open>
  The class \<^verbatim>\<open>AllocationService\<close> is the second module of
  src/src/services/cancellationService.js.
\<close>

text \<open>
  The value of a comparison operator in a query. Before a query is sent, Mongoose casts
  the value to the schema type of the path it is compared with; for a path of type
  \<^verbatim>\<open>Number\<close> a number is kept, a string is converted with \<^verbatim>\<open>Number(...)\<close>,
  and a string that is not a numeral makes the query reject with a
  \<^verbatim>\<open>CastError\<close>. Only non-empty unsigned decimal numerals are recognised
  here as numerals; the services pass neither a numeral in another notation nor the
  empty string.
\<close>

datatype operand = NumberOperand int | StringOperand string

definition digitOf :: "char \<Rightarrow> nat option" where
  "digitOf c = (if c \<in> set ''0123456789'' then Some (of_char c - 48) else None)"

fun decimalValue :: "nat \<Rightarrow> string \<Rightarrow> nat option" where
  "decimalValue acc [] = Some acc"
| "decimalValue acc (c # cs) =
     (case digitOf c of None \<Rightarrow> None | Some k \<Rightarrow> decimalValue (10 * acc + k) cs)"

fun castNumber :: "operand \<Rightarrow> error + int" where
  "castNumber (NumberOperand n) = Inr n"
| "castNumber (StringOperand s) =
     (case (if s = [] then None else decimalValue 0 s) of
        None \<Rightarrow> Inl CastError
      | Some n \<Rightarrow> Inr (int n))"

text \<open>
  \<^verbatim>\<open>Slot.findOne({..., currentOccupancy: { $op: v } }).sort({date: 1, startTime: 1})\<close>:
  \<open>q\<close> stands for the other conditions and \<open>cmp\<close> for the operator. The path
  \<^verbatim>\<open>currentOccupancy\<close> has type \<^verbatim>\<open>Number\<close> in the Slot schema.
\<close>

definition findOneSlotByOccupancy ::
  "(slot \<Rightarrow> bool) \<Rightarrow> (int \<Rightarrow> int \<Rightarrow> bool) \<Rightarrow> operand \<Rightarrow> slot list \<Rightarrow> error + slot option" where
  "findOneSlotByOccupancy q cmp v ss =
     (case castNumber v of
        Inl e \<Rightarrow> Inl e
      | Inr n \<Rightarrow> Inr (findOneSlot (\<lambda>s. q s \<and> cmp (currentOccupancy s) n) ss))"

text \<open>
  \<^verbatim>\<open>findAvailableSlot\<close>. Both queries compare \<^verbatim>\<open>currentOccupancy\<close> with the
  string \<^verbatim>\<open>'$maxCapacity'\<close>. The slot returned by the second query carries its
  populated token array, which \<^verbatim>\<open>sortByPriority\<close> has sorted in place.
\<close>

definition findAvailableSlot :: "db \<Rightarrow> oid \<Rightarrow> time \<Rightarrow> string \<Rightarrow> error + slot option" where
  "findAvailableSlot d doctorId preferredTime source =
     (let minPriorityForReallocation = getMinPriorityForReallocation source in
      case findOneSlotByOccupancy
             (\<lambda>s. s_doctorId s = doctorId \<and> date s \<ge> preferredTime \<and>
                  (s_status s = Available \<or> s_status s = Full))
             (<) (StringOperand ''$maxCapacity'') (slots d) of
        Inl e \<Rightarrow> Inl e
      | Inr (Some slot) \<Rightarrow> Inr (Some slot)
      | Inr None \<Rightarrow>
          (case findOneSlotByOccupancy
                  (\<lambda>s. s_doctorId s = doctorId \<and> date s \<ge> preferredTime \<and> s_status s = Full)
                  (\<ge>) (StringOperand ''$maxCapacity'') (slots d) of
             Inl e \<Rightarrow> Inl e
           | Inr None \<Rightarrow> Inr None
           | Inr (Some slot) \<Rightarrow>
               (let populated = populate d (allocatedTokens slot) in
                if length populated > 0 then
                  (let sorted = sortByPriority populated;
                       lowestPriorityToken = sorted ! (length sorted - 1)
                   in if js_lt (t_priorityScore lowestPriorityToken) minPriorityForReallocation
                      then Inr (Some (slot\<lparr>allocatedTokens := map t_id sorted\<rparr>))
                      else Inr None)
                else Inr None)))"

definition findNextAvailableSlotAfter :: "db \<Rightarrow> time \<Rightarrow> oid \<Rightarrow> error + slot option" where
  "findNextAvailableSlotAfter d dt doctorId =
     findOneSlotByOccupancy
       (\<lambda>s. s_doctorId s = doctorId \<and> date s > dt \<and> s_status s = Available)
       (<) (StringOperand ''$maxCapacity'') (slots d)"

text \<open>
  \<^verbatim>\<open>reallocateLowerPriorityToken(slot, newTokenPriority, newPatientId, doctorId)\<close>.
  The caller keeps using its \<^verbatim>\<open>slot\<close> object, which the function mutates, so the
  model returns it with the answer and the database. \<^verbatim>\<open>newPatientId\<close> is unused.
  The \<^verbatim>\<open>catch\<close> block answers \<^verbatim>\<open>false\<close> for any error.
\<close>

definition reallocateLowerPriorityToken ::
  "db \<Rightarrow> slot \<Rightarrow> js_value \<Rightarrow> oid \<Rightarrow> time \<Rightarrow> bool \<times> db \<times> slot" where
  "reallocateLowerPriorityToken d slot newTokenPriority doctorId now =
     (let toks = filter (\<lambda>t. slotId t = s_id slot \<and>
                              (t_status t = Booked \<or> t_status t = CheckedIn)) (tokens d)
      in if length toks = 0 then (False, d, slot)
         else
           (let sortedTokens = sortByPriority toks;
                lowestPriorityToken = sortedTokens ! (length sortedTokens - 1)
            in if js_ge (t_priorityScore lowestPriorityToken) newTokenPriority
               then (False, d, slot)
               else
                 (case findNextAvailableSlotAfter d (date slot) doctorId of
                    Inl e \<Rightarrow> (False, d, slot)
                  | Inr None \<Rightarrow> (False, d, slot)
                  | Inr (Some nextSlot) \<Rightarrow>
                      (let moved = lowestPriorityToken
                             \<lparr>slotId := s_id nextSlot,
                              appointmentTime := startTime nextSlot,
                              isReallocation := True,
                              originalSlotId := Some (s_id slot)\<rparr>;
                           d1 = saveTokenChanges d lowestPriorityToken moved now;
                           slot1 = slot
                             \<lparr>allocatedTokens :=
                                filter (\<lambda>i. i \<noteq> t_id lowestPriorityToken) (allocatedTokens slot),
                              currentOccupancy := currentOccupancy slot - 1\<rparr>;
                           slot2 = (if s_status slot1 = Full \<and>
                                       currentOccupancy slot1 < maxCapacity slot1
                                    then slot1\<lparr>s_status := Available\<rparr> else slot1);
                           d2 = saveSlot d1 slot2;
                           next1 = nextSlot
                             \<lparr>allocatedTokens :=
                                allocatedTokens nextSlot @ [t_id lowestPriorityToken],
                              currentOccupancy := currentOccupancy nextSlot + 1\<rparr>;
                           next2 = (if currentOccupancy next1 \<ge> maxCapacity next1
                                    then next1\<lparr>s_status := Full\<rparr> else next1);
                           d3 = saveSlot d2 next2
                       in (True, d3, slot2)))))"

text \<open>
  \<^verbatim>\<open>addToWaitingQueue\<close>. Saving the new document validates it against the schema:
  the source must be one of the enum's values and the score a number.
\<close>

definition addToWaitingQueue ::
  "db \<Rightarrow> oid \<Rightarrow> oid \<Rightarrow> string \<Rightarrow> js_value \<Rightarrow> time option \<Rightarrow> time \<Rightarrow> (error + waiting) \<times> db" where
  "addToWaitingQueue d patientId doctorId source priorityScore preferredDt now =
     (let queueCount = length (filter (\<lambda>w. w_doctorId w = doctorId \<and> w_status w = Waiting)
                                 (waitings d))
      in case (parseSource source, priorityScore) of
           (Some src, Num p) \<Rightarrow>
             (let w = \<lparr>w_id = nextId d, w_patientId = patientId, w_doctorId = doctorId,
                       w_source = src, w_priorityScore = p, preferredDate = preferredDt,
                       w_status = Waiting, queuePosition = int queueCount + 1,
                       allocatedTokenId = None,
                       expiresAt = now + 7 * 24 * 60 * 60 * 1000,
                       w_createdAt = now\<rparr>
              in (Inr w, insertWaiting d w))
         | _ \<Rightarrow> (Inl ValidationFailed, d))"

text \<open>
  \<^verbatim>\<open>updateQueuePositions\<close> (the same body in AllocationService and in
  WaitingQueueService).
\<close>

definition updateQueuePositions :: "db \<Rightarrow> oid \<Rightarrow> db" where
  "updateQueuePositions d doctorId =
     (let waitingPatients =
            sort_key queuePosition
              (filter (\<lambda>w. w_doctorId w = doctorId \<and> w_status w = Waiting) (waitings d))
      in fold (\<lambda>(i, w) acc. updateWaiting acc (w_id w) (\<lambda>x. x\<lparr>queuePosition := int i + 1\<rparr>))
           (enumerate 0 waitingPatients) d)"

text \<open>
  The body of the loop of \<^verbatim>\<open>allocateFromWaitingQueue\<close> once a slot was found: the
  token is created and saved, the slot and the waiting record are updated, the queue is
  renumbered.
\<close>

definition allocateWaiting :: "db \<Rightarrow> oid \<Rightarrow> waiting \<Rightarrow> slot \<Rightarrow> time \<Rightarrow> db" where
  "allocateWaiting d doctorId w slot now =
     (let tok = \<lparr>t_id = nextId d, t_patientId = w_patientId w, t_doctorId = doctorId,
                 slotId = s_id slot, t_source = w_source w,
                 t_priorityScore = w_priorityScore w, t_status = Booked,
                 appointmentTime = startTime slot, isReallocation = False,
                 originalSlotId = None, cancellationReason = None, checkedInAt = None,
                 completedAt = None, updatedAt = now\<rparr>;
          d1 = insertToken d tok;
          slot1 = slot\<lparr>allocatedTokens := allocatedTokens slot @ [t_id tok],
                       currentOccupancy := currentOccupancy slot + 1\<rparr>;
          slot2 = (if currentOccupancy slot1 \<ge> maxCapacity slot1
                   then slot1\<lparr>s_status := Full\<rparr> else slot1);
          d2 = saveSlot d1 slot2;
          d3 = updateWaiting d2 (w_id w)
                 (\<lambda>x. x\<lparr>w_status := Allocated, allocatedTokenId := Some (t_id tok)\<rparr>)
      in updateQueuePositions d3 doctorId)"

text \<open>
  The \<^verbatim>\<open>for\<close> loop over the snapshot of waiting patients. \<^verbatim>\<open>break\<close>
  ends it, and so does an error of \<^verbatim>\<open>findAvailableSlot\<close>, which the
  \<^verbatim>\<open>catch\<close> block around the loop logs and drops.
\<close>

fun allocateLoop :: "db \<Rightarrow> oid \<Rightarrow> time \<Rightarrow> waiting list \<Rightarrow> db" where
  "allocateLoop d doctorId now [] = d"
| "allocateLoop d doctorId now (w # rest) =
     (case findAvailableSlot d doctorId
             (case preferredDate w of Some p \<Rightarrow> p | None \<Rightarrow> now)
             (sourceName (w_source w)) of
        Inl e \<Rightarrow> d
      | Inr None \<Rightarrow> d
      | Inr (Some slot) \<Rightarrow>
          allocateLoop (allocateWaiting d doctorId w slot now) doctorId now rest)"

text \<open>\<^verbatim>\<open>find(...).sort({ priorityScore: -1, queuePosition: 1 })\<close>.\<close>

definition waitingPatientsOf :: "db \<Rightarrow> oid \<Rightarrow> waiting list" where
  "waitingPatientsOf d doctorId =
     sort_key (\<lambda>w. (- w_priorityScore w, queuePosition w))
       (filter (\<lambda>w. w_doctorId w = doctorId \<and> w_status w = Waiting) (waitings d))"

definition allocateFromWaitingQueue :: "db \<Rightarrow> oid \<Rightarrow> time \<Rightarrow> db" where
  "allocateFromWaitingQueue d doctorId now =
     allocateLoop d doctorId now (waitingPatientsOf d doctorId)"

text \<open>
  The slot update shared by \<^verbatim>\<open>handleCancellation\<close> and \<^verbatim>\<open>handleNoShow\<close>
  ("Free up the slot").
\<close>

definition freeSlot :: "db \<Rightarrow> token \<Rightarrow> db" where
  "freeSlot d tok =
     (case findSlotById d (slotId tok) of
        None \<Rightarrow> d
      | Some slot \<Rightarrow>
          saveSlot d (slot
            \<lparr>allocatedTokens := filter (\<lambda>i. i \<noteq> t_id tok) (allocatedTokens slot),
             currentOccupancy := currentOccupancy slot - 1,
             s_status := (if s_status slot = Full then Available else s_status slot)\<rparr>))"

definition handleCancellation :: "db \<Rightarrow> oid \<Rightarrow> string \<Rightarrow> time \<Rightarrow> (error + unit) \<times> db" where
  "handleCancellation d tokenId reason now =
     (case findTokenById d tokenId of
        None \<Rightarrow> (Inl TokenNotFound, d)
      | Some tok \<Rightarrow>
          if t_status tok = Completed \<or> t_status tok = Cancelled \<or> t_status tok = NoShow
          then (Inl NotCancellable, d)
          else
            (let tok1 = tok\<lparr>t_status := Cancelled, cancellationReason := Some reason\<rparr>;
                 d1 = saveTokenChanges d tok tok1 now;
                 d2 = freeSlot d1 tok1
             in (Inr (), allocateFromWaitingQueue d2 (t_doctorId tok1) now)))"

definition handleNoShow :: "db \<Rightarrow> oid \<Rightarrow> time \<Rightarrow> (error + unit) \<times> db" where
  "handleNoShow d tokenId now =
     (case findTokenById d tokenId of
        None \<Rightarrow> (Inl TokenNotFound, d)
      | Some tok \<Rightarrow>
          (let tok1 = tok\<lparr>t_status := NoShow\<rparr>;
               d1 = saveTokenChanges d tok tok1 now;
               d2 = freeSlot d1 tok1
           in (Inr (), allocateFromWaitingQueue d2 (t_doctorId tok1) now)))"

text \<open>The token request \<^verbatim>\<open>tokenData\<close> of \<^verbatim>\<open>allocateToken\<close>.\<close>

record token_request =
  r_patientId :: oid
  r_doctorId :: oid
  r_source :: string
  preferredSlotId :: "oid option"
  r_appointmentTime :: time

datatype allocation = TokenAllocated token | AddedToQueue waiting

text \<open>Steps 6 and 7 of \<^verbatim>\<open>allocateToken\<close>: create the token, update the slot.\<close>

definition createToken :: "db \<Rightarrow> token_request \<Rightarrow> js_value \<Rightarrow> slot \<Rightarrow> time \<Rightarrow> (error + allocation) \<times> db" where
  "createToken d req priorityScore targetSlot now =
     (case (parseSource (r_source req), priorityScore) of
        (Some src, Num p) \<Rightarrow>
          (let tok = \<lparr>t_id = nextId d, t_patientId = r_patientId req,
                      t_doctorId = r_doctorId req, slotId = s_id targetSlot, t_source = src,
                      t_priorityScore = p, t_status = Booked,
                      appointmentTime = r_appointmentTime req,
                      isReallocation =
                        (case preferredSlotId req of
                           None \<Rightarrow> False | Some ps \<Rightarrow> ps \<noteq> s_id targetSlot),
                      originalSlotId = preferredSlotId req, cancellationReason = None,
                      checkedInAt = None, completedAt = None, updatedAt = now\<rparr>;
               d1 = insertToken d tok;
               slot1 = targetSlot\<lparr>allocatedTokens := allocatedTokens targetSlot @ [t_id tok],
                                  currentOccupancy := currentOccupancy targetSlot + 1\<rparr>;
               slot2 = (if currentOccupancy slot1 \<ge> maxCapacity slot1
                        then slot1\<lparr>s_status := Full\<rparr> else slot1)
           in (Inr (TokenAllocated tok), saveSlot d1 slot2))
      | _ \<Rightarrow> (Inl ValidationFailed, d))"

definition enqueueRequest :: "db \<Rightarrow> token_request \<Rightarrow> js_value \<Rightarrow> time \<Rightarrow> (error + allocation) \<times> db" where
  "enqueueRequest d req priorityScore now =
     (case addToWaitingQueue d (r_patientId req) (r_doctorId req) (r_source req) priorityScore
             (Some (r_appointmentTime req)) now of
        (Inl e, d1) \<Rightarrow> (Inl e, d1)
      | (Inr w, d1) \<Rightarrow> (Inr (AddedToQueue w), d1))"

definition allocateToken :: "db \<Rightarrow> token_request \<Rightarrow> time \<Rightarrow> (error + allocation) \<times> db" where
  "allocateToken d req now =
     (let priorityScore = calculatePriorityScore (r_source req);
          preferred = (case preferredSlotId req of
                         None \<Rightarrow> None | Some ps \<Rightarrow> findSlotById d ps)
      in if (case preferred of None \<Rightarrow> False | Some ts \<Rightarrow> s_doctorId ts \<noteq> r_doctorId req)
         then (Inl SlotDoctorMismatch, d)
         else
           (let targetSlot0 =
                  (case preferred of
                     None \<Rightarrow> None
                   | Some ts \<Rightarrow> if currentOccupancy ts \<ge> maxCapacity ts then None else Some ts);
                targetSlot1 =
                  (case targetSlot0 of
                     Some ts \<Rightarrow> Inr (Some ts)
                   | None \<Rightarrow> findAvailableSlot d (r_doctorId req) (r_appointmentTime req)
                               (r_source req))
            in case targetSlot1 of
                 Inl e \<Rightarrow> (Inl e, d)
               | Inr None \<Rightarrow> enqueueRequest d req priorityScore now
               | Inr (Some ts) \<Rightarrow>
                   if currentOccupancy ts \<ge> maxCapacity ts then
                     (case reallocateLowerPriorityToken d ts priorityScore (r_doctorId req) now of
                        (False, d1, ts1) \<Rightarrow> enqueueRequest d1 req priorityScore now
                      | (True, d1, ts1) \<Rightarrow> createToken d1 req priorityScore ts1 now)
                   else createToken d req priorityScore ts now))"

text \<open>\<^verbatim>\<open>handleEmergency\<close>: the unsorted \<^verbatim>\<open>findOne\<close> takes the first match.\<close>

definition currentSlotOf :: "db \<Rightarrow> oid \<Rightarrow> time \<Rightarrow> slot option" where
  "currentSlotOf d doctorId now =
     find (\<lambda>s. s_doctorId s = doctorId \<and> startTime s \<le> now \<and> endTime s \<ge> now \<and>
              (s_status s = Available \<or> s_status s = Full)) (slots d)"


section \<open>CancellationService\<close>

text \<open>
  The class \<^verbatim>\<open>CancellationService\<close> is the first module of
  src/src/services/cancellationService.js.
\<close>

text \<open>
  \<^verbatim>\<open>requestCancellation\<close> reads only; it returns \<^verbatim>\<open>canCancel\<close> and
  \<^verbatim>\<open>hoursUntilAppointment\<close>.
\<close>

definition requestCancellation :: "db \<Rightarrow> oid \<Rightarrow> time \<Rightarrow> error + (bool \<times> real)" where
  "requestCancellation d tokenId now =
     (case findTokenById d tokenId of
        None \<Rightarrow> Inl TokenNotFound
      | Some tok \<Rightarrow>
          if t_status tok = Completed \<or> t_status tok = Cancelled \<or> t_status tok = NoShow
          then Inl NotCancellable
          else
            (let hoursUntilAppointment =
                   real_of_int (appointmentTime tok - now) / (1000 * 60 * 60)
             in if hoursUntilAppointment < 0 then Inl AlreadyStarted
                else Inr (hoursUntilAppointment > 0.5, hoursUntilAppointment)))"

definition processCancellation :: "db \<Rightarrow> oid \<Rightarrow> string \<Rightarrow> time \<Rightarrow> (error + unit) \<times> db" where
  "processCancellation d tokenId reason now =
     (case findTokenById d tokenId of
        None \<Rightarrow> (Inl TokenNotFound, d)
      | Some tok \<Rightarrow>
          (let tok1 = tok\<lparr>t_status := Cancelled, cancellationReason := Some reason\<rparr>;
               d1 = saveTokenChanges d tok tok1 now
           in case findSlotById d1 (slotId tok1) of
                None \<Rightarrow> (Inr (), d1)
              | Some slot \<Rightarrow>
                  (let slot1 = slot
                         \<lparr>allocatedTokens := filter (\<lambda>i. i \<noteq> t_id tok1) (allocatedTokens slot),
                          currentOccupancy := currentOccupancy slot - 1\<rparr>;
                       slot2 = (if s_status slot1 = Full \<and>
                                   currentOccupancy slot1 < maxCapacity slot1
                                then slot1\<lparr>s_status := Available\<rparr> else slot1)
                   in (Inr (), saveSlot d1 slot2))))"

text \<open>
  \<^verbatim>\<open>requestRefund\<close> calls no \<^verbatim>\<open>save\<close>; the database is returned as it was
  received so that this can be stated.
\<close>

definition requestRefund :: "db \<Rightarrow> oid \<Rightarrow> (error + int) \<times> db" where
  "requestRefund d tokenId =
     (case findTokenById d tokenId of
        None \<Rightarrow> (Inl TokenNotFound, d)
      | Some tok \<Rightarrow>
          if t_status tok \<noteq> Cancelled then (Inl OnlyCancelledRefund, d)
          else
            (let cancellationTime = updatedAt tok;
                 hoursBeforeAppointment =
                   real_of_int (appointmentTime tok - cancellationTime) / (1000 * 60 * 60);
                 refundPercentage =
                   (if hoursBeforeAppointment \<ge> 24 then 100
                    else if hoursBeforeAppointment \<ge> 12 then 75
                    else if hoursBeforeAppointment \<ge> 6 then 50
                    else 0)
             in (Inr refundPercentage, d)))"

section \<open>Controllers (src/src/controllers/cancellationController.js)\<close>

text \<open>\<^verbatim>\<open>CancellationController.cancelToken\<close>: check, process, promote.\<close>

definition cancelToken :: "db \<Rightarrow> oid \<Rightarrow> string \<Rightarrow> time \<Rightarrow> (error + unit) \<times> db" where
  "cancelToken d tokenId reason now =
     (case requestCancellation d tokenId now of
        Inl e \<Rightarrow> (Inl e, d)
      | Inr chk \<Rightarrow>
          (case processCancellation d tokenId reason now of
             (Inl e, d1) \<Rightarrow> (Inl e, d1)
           | (Inr u, d1) \<Rightarrow>
               (case findTokenById d1 tokenId of
                  None \<Rightarrow> (Inl TokenNotFound, d1)
                | Some tok \<Rightarrow> (Inr (), allocateFromWaitingQueue d1 (t_doctorId tok) now))))"

definition parseStatus :: "string \<Rightarrow> token_status option" where
  "parseStatus s =
     (if s = ''booked'' then Some Booked
      else if s = ''checked_in'' then Some CheckedIn
      else if s = ''completed'' then Some Completed
      else if s = ''no_show'' then Some NoShow
      else if s = ''cancelled'' then Some Cancelled
      else None)"

text \<open>\<^verbatim>\<open>TokenController.updateTokenStatus\<close>.\<close>

definition updateTokenStatus :: "db \<Rightarrow> oid \<Rightarrow> string \<Rightarrow> time \<Rightarrow> (error + token) \<times> db" where
  "updateTokenStatus d tokenId status now =
     (case parseStatus status of
        None \<Rightarrow> (Inl InvalidStatus, d)
      | Some st \<Rightarrow>
          (case findTokenById d tokenId of
             None \<Rightarrow> (Inl TokenNotFound, d)
           | Some tok \<Rightarrow>
               (let tok1 = tok\<lparr>t_status := st\<rparr>;
                    tok2 = (if st = CheckedIn then tok1\<lparr>checkedInAt := Some now\<rparr>
                            else if st = Completed then tok1\<lparr>completedAt := Some now\<rparr>
                            else tok1)
                in (Inr (touched tok tok2 now), saveTokenChanges d tok tok2 now))))"

section \<open>EmergencyService (src/unnamed/part_003)\<close>

definition fastTrackEmergency :: "db \<Rightarrow> oid \<Rightarrow> oid \<Rightarrow> time \<Rightarrow> (error + token) \<times> db" where
  "fastTrackEmergency d patientId doctorId now =
     (case currentSlotOf d doctorId now of
        None \<Rightarrow> (Inl NoActiveSlot, d)
      | Some currentSlot \<Rightarrow>
          (let emergencyToken =
                 \<lparr>t_id = nextId d, t_patientId = patientId, t_doctorId = doctorId,
                  slotId = s_id currentSlot, t_source = Emergency, t_priorityScore = 100,
                  t_status = Booked, appointmentTime = now, isReallocation = False,
                  originalSlotId = None, cancellationReason = None, checkedInAt = None,
                  completedAt = None, updatedAt = now\<rparr>;
               d1 = insertToken d emergencyToken;
               toks = filter (\<lambda>t. slotId t = s_id currentSlot \<and>
                                   (t_status t = Booked \<or> t_status t = CheckedIn)) (tokens d1);
               sortedTokens = sort_key t_priorityScore toks;
               nextSlot = findOneSlot
                            (\<lambda>s. s_doctorId s = doctorId \<and> date s > date currentSlot \<and>
                                 s_status s = Available) (slots d1);
               (d2, cur1) =
                 (if currentOccupancy currentSlot \<ge> maxCapacity currentSlot \<and> length toks > 0
                  then
                    (case (sortedTokens, nextSlot) of
                       (lowestPriority # others, Some nxt) \<Rightarrow>
                         (let da = saveTokenChanges d1 lowestPriority
                                     (lowestPriority\<lparr>slotId := s_id nxt,
                                                     appointmentTime := startTime nxt,
                                                     isReallocation := True\<rparr>) now;
                              dn = saveSlot da
                                     (nxt\<lparr>allocatedTokens :=
                                            allocatedTokens nxt @ [t_id lowestPriority],
                                          currentOccupancy := currentOccupancy nxt + 1\<rparr>)
                          in (dn,
                              currentSlot
                                \<lparr>allocatedTokens :=
                                   filter (\<lambda>i. i \<noteq> t_id lowestPriority)
                                     (allocatedTokens currentSlot),
                                 currentOccupancy := currentOccupancy currentSlot - 1\<rparr>))
                     | _ \<Rightarrow> (d1, currentSlot))
                  else (d1, currentSlot));
               cur2 = cur1\<lparr>allocatedTokens := allocatedTokens cur1 @ [t_id emergencyToken],
                           currentOccupancy := currentOccupancy cur1 + 1\<rparr>;
               cur3 = (if currentOccupancy cur2 \<ge> maxCapacity cur2
                       then cur2\<lparr>s_status := Full\<rparr> else cur2)
           in (Inr emergencyToken, saveSlot d2 cur3)))"

text \<open>
  \<^verbatim>\<open>overrideSlotRules\<close>. For an integer capacity \<^verbatim>\<open>maxCapacity * 1.5\<close> and
  \<^verbatim>\<open>maxCapacity * 1.25\<close> are exact in double precision, so \<^verbatim>\<open>Math.ceil\<close> is
  the ceiling of the real product.
\<close>

definition overrideSlotRules :: "db \<Rightarrow> oid \<Rightarrow> string \<Rightarrow> (error + int \<times> int) \<times> db" where
  "overrideSlotRules d sid emergencyLevel =
     (case findSlotById d sid of
        None \<Rightarrow> (Inl SlotNotFound, d)
      | Some slot \<Rightarrow>
          (let originalCapacity = maxCapacity slot;
               slot1 =
                 (if emergencyLevel = ''critical''
                  then slot\<lparr>maxCapacity := \<lceil>real_of_int (maxCapacity slot) * 1.5\<rceil>\<rparr>
                  else if emergencyLevel = ''high''
                  then slot\<lparr>maxCapacity := \<lceil>real_of_int (maxCapacity slot) * 1.25\<rceil>\<rparr>
                  else slot)
           in (Inr (originalCapacity, maxCapacity slot1), saveSlot d slot1)))"

section \<open>WaitingQueueService (src/src/services/waitingQueueService.js)\<close>

text \<open>
  \<^verbatim>\<open>cancelWaiting\<close>: \<^verbatim>\<open>findByIdAndUpdate\<close>, then the renumbering. The
  Waiting schema has no \<^verbatim>\<open>cancellationReason\<close> path, so only the status is stored.
\<close>

definition cancelWaiting :: "db \<Rightarrow> oid \<Rightarrow> string \<Rightarrow> (error + unit) \<times> db" where
  "cancelWaiting d waitingId reason =
     (case findWaitingById d waitingId of
        None \<Rightarrow> (Inl WaitingNotFound, d)
      | Some w \<Rightarrow>
          (let d1 = updateWaiting d waitingId (\<lambda>x. x\<lparr>w_status := WaitingCancelled\<rparr>)
           in (Inr (), updateQueuePositions d1 (w_doctorId w))))"

text \<open>\<^verbatim>\<open>cleanExpiredEntries\<close>: one \<^verbatim>\<open>updateMany\<close>; the result is the count.\<close>

definition cleanExpiredEntries :: "db \<Rightarrow> time \<Rightarrow> nat \<times> db" where
  "cleanExpiredEntries d now =
     (length (filter (\<lambda>w. w_status w = Waiting \<and> expiresAt w < now) (waitings d)),
      d\<lparr>waitings :=
           map (\<lambda>w. if w_status w = Waiting \<and> expiresAt w < now
                     then w\<lparr>w_status := Expired\<rparr> else w) (waitings d)\<rparr>)"

section \<open>Observations\<close>

text \<open>What is stored about a waiting entry's promotion: its status and its token.\<close>

definition waitingCore :: "db \<Rightarrow> oid \<Rightarrow> (waiting_status \<times> oid option) option" where
  "waitingCore d i =
     map_option (\<lambda>w. (w_status w, allocatedTokenId w)) (findWaitingById d i)"

text \<open>The stored status of a token.\<close>

definition tokenStatus :: "db \<Rightarrow> oid \<Rightarrow> token_status option" where
  "tokenStatus d i = map_option t_status (findTokenById d i)"

text \<open>The stored queue position of a waiting entry.\<close>

definition positionOf :: "db \<Rightarrow> oid \<Rightarrow> int option" where
  "positionOf d i = map_option queuePosition (findWaitingById d i)"

text \<open>Every slot's occupancy is the number of its tokens and within its capacity.\<close>

definition slotInvariant :: "db \<Rightarrow> bool" where
  "slotInvariant d =
     list_all (\<lambda>s. currentOccupancy s = int (length (allocatedTokens s)) \<and>
                    currentOccupancy s \<le> maxCapacity s) (slots d)"

section \<open>Example states\<close>

text \<open>
  Concrete documents and databases for doctor 1, used to run the operations: a slot with
  the given id, date (also its start time), capacity, occupancy, status and tokens; a
  token with the given id, slot, source, score, status and appointment time; a waiting
  entry with the given id, source, score, position and expiry.
\<close>

definition exSlot :: "oid \<Rightarrow> time \<Rightarrow> int \<Rightarrow> int \<Rightarrow> slot_status \<Rightarrow> oid list \<Rightarrow> slot" where
  "exSlot i dt cap occ st toks =
     \<lparr>s_id = i, s_doctorId = 1, startTime = dt, endTime = dt + 10, maxCapacity = cap,
      currentOccupancy = occ, s_status = st, date = dt, allocatedTokens = toks\<rparr>"

definition exToken :: "oid \<Rightarrow> oid \<Rightarrow> source \<Rightarrow> int \<Rightarrow> token_status \<Rightarrow> time \<Rightarrow> token" where
  "exToken i sl src p st apt =
     \<lparr>t_id = i, t_patientId = 7, t_doctorId = 1, slotId = sl, t_source = src,
      t_priorityScore = p, t_status = st, appointmentTime = apt, isReallocation = False,
      originalSlotId = None, cancellationReason = None, checkedInAt = None,
      completedAt = None, updatedAt = 0\<rparr>"

definition exWaiting :: "oid \<Rightarrow> source \<Rightarrow> int \<Rightarrow> int \<Rightarrow> time \<Rightarrow> waiting" where
  "exWaiting i src p pos ex =
     \<lparr>w_id = i, w_patientId = 8, w_doctorId = 1, w_source = src, w_priorityScore = p,
      preferredDate = Some 0, w_status = Waiting, queuePosition = pos,
      allocatedTokenId = None, expiresAt = ex, w_createdAt = 0\<rparr>"

definition exFullSlotDb :: db where
  "exFullSlotDb =
     \<lparr>slots = [exSlot 10 5 2 2 Full [20, 21]],
      tokens = [exToken 20 10 WalkIn 20 Booked 5, exToken 21 10 Online 40 Booked 5],
      waitings = [exWaiting 30 Online 40 1 1000, exWaiting 31 Online 40 2 1000],
      nextId = 100\<rparr>"

definition exRefundDb :: db where
  "exRefundDb =
     \<lparr>slots = [exSlot 10 90000000 2 1 Available [20]],
      tokens = [exToken 20 10 Online 40 Booked 90000000],
      waitings = [], nextId = 100\<rparr>"

definition exQueueDb :: db where
  "exQueueDb =
     \<lparr>slots = [], tokens = [], waitings = [exWaiting 30 WalkIn 20 1 1000], nextId = 100\<rparr>"

definition exExpiryDb :: db where
  "exExpiryDb =
     \<lparr>slots = [], tokens = [],
      waitings = [exWaiting 30 Online 40 1 5, exWaiting 31 Online 40 2 1000],
      nextId = 100\<rparr>"

definition exPromoteDb :: db where
  "exPromoteDb =
     \<lparr>slots = [exSlot 10 5 1 0 Available []], tokens = [],
      waitings = [exWaiting 30 WalkIn 20 1 1000, exWaiting 31 Online 40 2 1000],
      nextId = 100\<rparr>"

definition exCancelledDb :: db where
  "exCancelledDb =
     \<lparr>slots = [exSlot 10 5 2 0 Available []],
      tokens = [exToken 20 10 Online 40 Cancelled 5],
      waitings = [], nextId = 100\<rparr>"


definition exNoWaitingDb :: db where
  "exNoWaitingDb =
     \<lparr>slots = [exSlot 10 5 2 2 Full [20, 21]],
      tokens = [exToken 20 10 WalkIn 20 Booked 5, exToken 21 10 Online 40 Booked 5],
      waitings = [], nextId = 100\<rparr>"

definition exEmergencyDb :: db where
  "exEmergencyDb =
     \<lparr>slots = [exSlot 10 5 1 1 Full [20]],
      tokens = [exToken 20 10 Online 40 Booked 5],
      waitings = [], nextId = 100\<rparr>"

text \<open>An online request for slot 10.\<close>

definition exRequest :: token_request where
  "exRequest = \<lparr>r_patientId = 9, r_doctorId = 1, r_source = ''online'',
                 preferredSlotId = Some 10, r_appointmentTime = 5\<rparr>"

section \<open>Basic facts about the collections\<close>

lemma find_replace:
  assumes "find P xs = Some x" and "P y"
  shows "find P (map (\<lambda>z. if P z then y else z) xs) = Some y"
  using assms by (induction xs) (auto split: if_splits)

lemma findTokenById_id: "findTokenById d i = Some tok \<Longrightarrow> t_id tok = i"
  by (auto simp: findTokenById_def find_Some_iff)

lemma findTokenById_saveToken:
  assumes "findTokenById d i = Some tok" and "t_id tok' = i"
  shows "findTokenById (saveToken d tok') i = Some tok'"
  using find_replace[of "\<lambda>t. t_id t = i" "tokens d" tok tok'] assms
  by (simp add: findTokenById_def saveToken_def)

lemma touched_fields [simp]:
  "t_id (touched old new now) = t_id new"
  "t_status (touched old new now) = t_status new"
  "appointmentTime (touched old new now) = appointmentTime new"
  "slotId (touched old new now) = slotId new"
  "t_priorityScore (touched old new now) = t_priorityScore new"
  by (auto simp: touched_def)

lemma findTokenById_saveTokenChanges:
  assumes "findTokenById d i = Some tok" and "t_id new = i"
  shows "findTokenById (saveTokenChanges d tok new now) i = Some (touched tok new now)"
proof (cases "new = tok")
  case True
  then show ?thesis using assms(1) by (simp add: saveTokenChanges_def touched_def)
next
  case False
  then show ?thesis
    using findTokenById_saveToken[OF assms(1), of "new\<lparr>updatedAt := now\<rparr>"] assms(2)
    by (simp add: saveTokenChanges_def touched_def)
qed

lemma saveTokenChanges_frame [simp]:
  "slots (saveTokenChanges d old new now) = slots d"
  "waitings (saveTokenChanges d old new now) = waitings d"
  "nextId (saveTokenChanges d old new now) = nextId d"
  by (simp_all add: saveTokenChanges_def saveToken_def)

lemma findTokenById_saveSlot [simp]: "findTokenById (saveSlot d s) i = findTokenById d i"
  by (simp add: findTokenById_def saveSlot_def)

subsection \<open>Waiting entries\<close>

lemma find_map_preserving:
  assumes "\<And>x. P (f x) = P x"
  shows "find P (map f xs) = map_option f (find P xs)"
  by (induction xs) (auto simp: assms)

lemma find_Some_holds: "find P xs = Some x \<Longrightarrow> P x"
  by (auto simp: find_Some_iff)

lemma waitingCore_updateWaiting:
  assumes "\<And>x. w_id (g x) = w_id x"
  shows "waitingCore (updateWaiting d i g) j =
           (if j = i
            then map_option (\<lambda>x. (w_status (g x), allocatedTokenId (g x))) (findWaitingById d i)
            else waitingCore d j)"
proof -
  have "find (\<lambda>w. w_id w = j) (map (\<lambda>x. if w_id x = i then g x else x) (waitings d)) =
          map_option (\<lambda>x. if w_id x = i then g x else x) (find (\<lambda>w. w_id w = j) (waitings d))"
    by (rule find_map_preserving) (simp add: assms)
  then show ?thesis
    by (cases "find (\<lambda>w. w_id w = j) (waitings d)")
      (auto simp: waitingCore_def findWaitingById_def updateWaiting_def dest: find_Some_holds)
qed

lemma fold_renumber_frame:
  "slots (fold (\<lambda>(i, w) acc. updateWaiting acc (w_id w) (\<lambda>x. x\<lparr>queuePosition := int i + 1\<rparr>)) es acc) = slots acc \<and>
   tokens (fold (\<lambda>(i, w) acc. updateWaiting acc (w_id w) (\<lambda>x. x\<lparr>queuePosition := int i + 1\<rparr>)) es acc) = tokens acc \<and>
   nextId (fold (\<lambda>(i, w) acc. updateWaiting acc (w_id w) (\<lambda>x. x\<lparr>queuePosition := int i + 1\<rparr>)) es acc) = nextId acc \<and>
   waitingCore (fold (\<lambda>(i, w) acc. updateWaiting acc (w_id w) (\<lambda>x. x\<lparr>queuePosition := int i + 1\<rparr>)) es acc) j = waitingCore acc j"
proof (induction es arbitrary: acc)
  case Nil
  show ?case by simp
next
  case (Cons e es)
  obtain i w where e: "e = (i, w)" by (cases e)
  have c: "waitingCore (updateWaiting acc (w_id w) (\<lambda>x. x\<lparr>queuePosition := int i + 1\<rparr>)) j = waitingCore acc j"
    by (simp add: waitingCore_updateWaiting) (simp add: waitingCore_def)
  show ?case
    using Cons.IH[of "updateWaiting acc (w_id w) (\<lambda>x. x\<lparr>queuePosition := int i + 1\<rparr>)"] c
    by (simp add: e) (simp add: updateWaiting_def)
qed

lemma updateQueuePositions_frame [simp]:
  "slots (updateQueuePositions d doc) = slots d"
  "tokens (updateQueuePositions d doc) = tokens d"
  "nextId (updateQueuePositions d doc) = nextId d"
  "waitingCore (updateQueuePositions d doc) j = waitingCore d j"
  by (simp_all add: updateQueuePositions_def Let_def fold_renumber_frame)

lemma waitings_frame [simp]:
  "waitings (saveSlot d s) = waitings d"
  "waitings (saveToken d t) = waitings d"
  "waitings (insertToken d t) = waitings d"
  by (simp_all add: saveSlot_def saveToken_def insertToken_def)

lemma tokens_frame [simp]:
  "tokens (saveSlot d s) = tokens d"
  "tokens (updateWaiting d i g) = tokens d"
  "tokens (insertToken d t) = tokens d @ [t]"
  by (simp_all add: saveSlot_def updateWaiting_def insertToken_def)

subsection \<open>The slot queries\<close>

lemma castNumber_maxCapacity: "castNumber (StringOperand ''$maxCapacity'') = Inl CastError"
  by (simp add: digitOf_def)

lemma findAvailableSlot_fails: "findAvailableSlot d doc t src = Inl CastError"
  by (simp add: findAvailableSlot_def findOneSlotByOccupancy_def castNumber_maxCapacity
      del: castNumber.simps)

lemma findNextAvailableSlotAfter_fails: "findNextAvailableSlotAfter d dt doc = Inl CastError"
  by (simp add: findNextAvailableSlotAfter_def findOneSlotByOccupancy_def castNumber_maxCapacity
      del: castNumber.simps)

lemma reallocateLowerPriorityToken_refuses:
  "reallocateLowerPriorityToken d slot p doc now = (False, d, slot)"
  by (simp add: reallocateLowerPriorityToken_def Let_def findNextAvailableSlotAfter_fails)

lemma allocateLoop_unchanged: "allocateLoop d doc now ws = d"
  by (cases ws) (simp_all add: findAvailableSlot_fails)

lemma allocateFromWaitingQueue_unchanged: "allocateFromWaitingQueue d doc now = d"
  by (simp add: allocateFromWaitingQueue_def allocateLoop_unchanged)

subsection \<open>Cancellation\<close>

lemma findTokenById_allocateFromWaitingQueue:
  assumes "findTokenById d i = Some tok"
  shows "findTokenById (allocateFromWaitingQueue d doc now) i = Some tok"
  using assms by (simp add: allocateFromWaitingQueue_unchanged)

lemma findTokenById_freeSlot [simp]: "findTokenById (freeSlot d t) i = findTokenById d i"
  by (simp add: freeSlot_def split: option.splits)

lemma processCancellation_token:
  assumes "findTokenById d i = Some tok"
  shows "findTokenById (snd (processCancellation d i reason now)) i =
           Some (touched tok (tok\<lparr>t_status := Cancelled, cancellationReason := Some reason\<rparr>)
                   now)"
proof -
  have "t_id tok = i" using assms by (rule findTokenById_id)
  then have "findTokenById
               (saveTokenChanges d tok
                  (tok\<lparr>t_status := Cancelled, cancellationReason := Some reason\<rparr>) now) i =
             Some (touched tok (tok\<lparr>t_status := Cancelled, cancellationReason := Some reason\<rparr>)
                     now)"
    using findTokenById_saveTokenChanges[OF assms] by simp
  then show ?thesis
    using assms
    by (simp add: processCancellation_def Let_def findSlotById_def split: option.splits)
qed

lemma hours_negative: "(real_of_int x / (1000 * 60 * 60) < 0) = (x < 0)"
  by (simp add: divide_less_0_iff)

lemma terminal_cases:
  "(\<not> (st = Completed \<or> st = Cancelled \<or> st = NoShow)) = (st = Booked \<or> st = CheckedIn)"
  by (cases st) simp_all

lemma requestCancellation_found:
  assumes "findTokenById d i = Some tok"
  shows "requestCancellation d i now =
           (if t_status tok = Completed \<or> t_status tok = Cancelled \<or> t_status tok = NoShow
            then Inl NotCancellable
            else if appointmentTime tok < now then Inl AlreadyStarted
            else Inr (real_of_int (appointmentTime tok - now) / (1000 * 60 * 60) > 0.5,
                      real_of_int (appointmentTime tok - now) / (1000 * 60 * 60)))"
  using assms by (simp add: requestCancellation_def Let_def hours_negative)

lemma processCancellation_ok:
  assumes "findTokenById d i = Some tok"
  shows "fst (processCancellation d i reason now) = Inr ()"
  using assms by (simp add: processCancellation_def Let_def split: option.splits)

lemma cancelToken_found:
  assumes "findTokenById d i = Some tok"
  shows "cancelToken d i reason now =
           (if t_status tok = Completed \<or> t_status tok = Cancelled \<or> t_status tok = NoShow
            then (Inl NotCancellable, d)
            else if appointmentTime tok < now then (Inl AlreadyStarted, d)
            else (Inr (), allocateFromWaitingQueue (snd (processCancellation d i reason now))
                            (t_doctorId tok) now))"
proof -
  obtain r d1 where p: "processCancellation d i reason now = (r, d1)"
    by (cases "processCancellation d i reason now")
  have r: "r = Inr ()" using processCancellation_ok[OF assms, of reason now] p by simp
  have t: "findTokenById d1 i =
             Some (touched tok (tok\<lparr>t_status := Cancelled, cancellationReason := Some reason\<rparr>)
                     now)"
    using processCancellation_token[OF assms, of reason now] p by simp
  show ?thesis
    by (simp add: cancelToken_def requestCancellation_found[OF assms] p r t touched_def)
qed

lemma handleCancellation_found:
  assumes "findTokenById d i = Some tok"
  shows "handleCancellation d i reason now =
           (if t_status tok = Completed \<or> t_status tok = Cancelled \<or> t_status tok = NoShow
            then (Inl NotCancellable, d)
            else (Inr (),
                  allocateFromWaitingQueue
                    (freeSlot
                       (saveTokenChanges d tok
                          (tok\<lparr>t_status := Cancelled, cancellationReason := Some reason\<rparr>) now)
                       (tok\<lparr>t_status := Cancelled, cancellationReason := Some reason\<rparr>))
                    (t_doctorId tok) now))"
  using assms by (simp add: handleCancellation_def Let_def)


section \<open>Slot occupancy and capacity\<close>

text \<open>
  Claim C1. A slot starts with occupancy 2, two tokens and capacity 2, and nobody waits.
  The online token is marked no-show twice. Both calls succeed, since
  \<^verbatim>\<open>handleNoShow\<close> does not look at the token's status; the second finds nothing
  to remove from the slot's token list and still lowers the occupancy, which ends at 0
  beside one remaining token.
\<close>

theorem occupancy_invariant_broken:
  "map (\<lambda>s. (currentOccupancy s, length (allocatedTokens s), maxCapacity s))
     (slots exNoWaitingDb) = [(2, 2, 2)] \<and>
   fst (handleNoShow exNoWaitingDb 21 1) = Inr () \<and>
   fst (handleNoShow (snd (handleNoShow exNoWaitingDb 21 1)) 21 2) = Inr () \<and>
   map (\<lambda>s. (currentOccupancy s, length (allocatedTokens s), maxCapacity s))
     (slots (snd (handleNoShow (snd (handleNoShow exNoWaitingDb 21 1)) 21 2))) = [(0, 1, 2)]"
  by code_simp

section \<open>Displacement from a full slot\<close>


section \<open>Promotion from the waiting queue\<close>

text \<open>
  Claim C3. A slot of capacity 2 is full, and two online patients wait at positions 1 and
  2. One of the slot's tokens is cancelled, which frees a place: the slot is stored with
  occupancy 1 and status available. The promotion that follows gives the place to nobody:
  for the first waiting entry \<^verbatim>\<open>findAvailableSlot\<close> fails in its query, the
  \<^verbatim>\<open>catch\<close> block of \<^verbatim>\<open>allocateFromWaitingQueue\<close> drops the error, and
  both entries are left waiting at their positions, with no token. The same happens after
  a no-show.
\<close>

theorem freed_place_promotes_nobody:
  "map (\<lambda>w. (w_id w, w_priorityScore w, queuePosition w, w_status w)) (waitings exFullSlotDb) =
     [(30, 40, 1, Waiting), (31, 40, 2, Waiting)] \<and>
   fst (handleCancellation exFullSlotDb 21 ''patient request'' 1) = Inr () \<and>
   map (\<lambda>s. (currentOccupancy s, allocatedTokens s, maxCapacity s, s_status s))
     (slots (snd (handleCancellation exFullSlotDb 21 ''patient request'' 1))) =
     [(1, [20], 2, Available)] \<and>
   map (\<lambda>w. (w_id w, w_status w, queuePosition w, allocatedTokenId w))
     (waitings (snd (handleCancellation exFullSlotDb 21 ''patient request'' 1))) =
     [(30, Waiting, 1, None), (31, Waiting, 2, None)] \<and>
   map t_id (tokens (snd (handleCancellation exFullSlotDb 21 ''patient request'' 1))) =
     [20, 21] \<and>
   findAvailableSlot (snd (handleCancellation exFullSlotDb 21 ''patient request'' 1)) 1 0
     ''online'' = Inl CastError \<and>
   fst (handleNoShow exFullSlotDb 21 1) = Inr () \<and>
   map (\<lambda>s. (currentOccupancy s, allocatedTokens s, maxCapacity s, s_status s))
     (slots (snd (handleNoShow exFullSlotDb 21 1))) = [(1, [20], 2, Available)] \<and>
   map (\<lambda>w. (w_id w, w_status w, queuePosition w, allocatedTokenId w))
     (waitings (snd (handleNoShow exFullSlotDb 21 1))) =
     [(30, Waiting, 1, None), (31, Waiting, 2, None)]"
  by code_simp

section \<open>Position of a new waiting entry\<close>

text \<open>
  Claim C4, as stated, fails: with one walk-in (score 20) waiting for the doctor, an
  emergency request (score 100) is queued at position 2, while the number of waiting
  entries ranked before it (higher score, or equal score and earlier creation) is 0, which
  would give position 1.
\<close>

theorem addToWaitingQueue_appends_counterexample:
  "map_sum id queuePosition
     (fst (addToWaitingQueue exQueueDb 9 1 ''emergency''
             (calculatePriorityScore ''emergency'') (Some 0) 50)) = Inr 2 \<and>
   1 + int (length (filter (\<lambda>w. w_doctorId w = 1 \<and> w_status w = Waiting \<and>
                                (w_priorityScore w > 100 \<or>
                                 (w_priorityScore w = 100 \<and> w_createdAt w < 50)))
                      (waitings exQueueDb))) = 1"
  by code_simp

text \<open>
  Claim C4, amended. A request with a valid source and a numeric score is always queued,
  as the last document of the collection, and its position is one plus the number of
  entries already waiting for that doctor, whatever their scores.
\<close>

theorem addToWaitingQueue_position:
  assumes "parseSource source = Some src"
  shows "\<exists>w. addToWaitingQueue d patientId doctorId source (Num p) pref now =
               (Inr w, d\<lparr>waitings := waitings d @ [w], nextId := Suc (nextId d)\<rparr>) \<and>
             queuePosition w =
               1 + int (length (filter (\<lambda>x. w_doctorId x = doctorId \<and> w_status x = Waiting)
                                  (waitings d))) \<and>
             w_status w = Waiting \<and> w_doctorId w = doctorId \<and> w_patientId w = patientId \<and>
             w_source w = src \<and> w_priorityScore w = p \<and> preferredDate w = pref"
  using assms by (simp add: addToWaitingQueue_def insertWaiting_def Let_def)

theorem addToWaitingQueue_position_witness:
  "parseSource ''emergency'' = Some Emergency \<and>
   (\<exists>w. fst (addToWaitingQueue exQueueDb 9 1 ''emergency'' (Num 100) (Some 0) 50) = Inr w \<and>
        queuePosition w = 2 \<and> w_priorityScore w = 100)"
proof -
  have h: "parseSource ''emergency'' = Some Emergency" by code_simp
  have n: "length (filter (\<lambda>x. w_doctorId x = 1 \<and> w_status x = Waiting) (waitings exQueueDb)) = 1"
    by code_simp
  show ?thesis
    using h n addToWaitingQueue_position[OF h, of exQueueDb 9 1 100 "Some 0" 50]
    by auto
qed

section \<open>Density of queue positions\<close>

text \<open>
  Claim C5. Two patients wait for the doctor at positions 1 and 2, and the first entry has
  expired. \<^verbatim>\<open>cleanExpiredEntries\<close> marks it expired and renumbers nothing: the one
  entry still waiting keeps position 2.
\<close>

theorem cleanExpiredEntries_leaves_gap:
  "map queuePosition
     (filter (\<lambda>w. w_doctorId w = 1 \<and> w_status w = Waiting) (waitings exExpiryDb)) = [1, 2] \<and>
   fst (cleanExpiredEntries exExpiryDb 10) = 1 \<and>
   map queuePosition
     (filter (\<lambda>w. w_doctorId w = 1 \<and> w_status w = Waiting)
        (waitings (snd (cleanExpiredEntries exExpiryDb 10)))) = [2]"
  by code_simp

section \<open>Token status changes\<close>

text \<open>
  Claim C6, as stated, fails: \<^verbatim>\<open>updateTokenStatus\<close> with status
  \<^verbatim>\<open>booked\<close> succeeds on a cancelled token and stores it as booked.
\<close>

theorem updateTokenStatus_resurrects_counterexample:
  "tokenStatus exCancelledDb 20 = Some Cancelled \<and>
   fst (updateTokenStatus exCancelledDb 20 ''booked'' 1) =
     Inr ((exToken 20 10 Online 40 Booked 5)\<lparr>updatedAt := 1\<rparr>) \<and>
   tokenStatus (snd (updateTokenStatus exCancelledDb 20 ''booked'' 1)) 20 = Some Booked"
  by code_simp

lemma findTokenById_handleNoShow:
  assumes "findTokenById d i = Some tok"
  shows "findTokenById (snd (handleNoShow d i now)) i =
           Some (touched tok (tok\<lparr>t_status := NoShow\<rparr>) now)"
proof -
  have "t_id tok = i" using assms by (rule findTokenById_id)
  then have "findTokenById
          (freeSlot (saveTokenChanges d tok (tok\<lparr>t_status := NoShow\<rparr>) now)
             (tok\<lparr>t_status := NoShow\<rparr>)) i =
        Some (touched tok (tok\<lparr>t_status := NoShow\<rparr>) now)"
    using findTokenById_saveTokenChanges[OF assms] by simp
  from findTokenById_allocateFromWaitingQueue[OF this]
  show ?thesis using assms by (simp add: handleNoShow_def Let_def)
qed

lemma updateTokenStatus_found:
  assumes "findTokenById d i = Some tok" and "parseStatus s = Some st"
  shows "tokenStatus (snd (updateTokenStatus d i s now)) i = Some st"
proof -
  have i: "t_id tok = i" using assms(1) by (rule findTokenById_id)
  let ?t = "(if st = CheckedIn then tok\<lparr>t_status := st, checkedInAt := Some now\<rparr>
             else if st = Completed then tok\<lparr>t_status := st, completedAt := Some now\<rparr>
             else tok\<lparr>t_status := st\<rparr>)"
  have "t_id ?t = i" "t_status ?t = st" using i by auto
  with findTokenById_saveTokenChanges[OF assms(1), of ?t now]
  have "tokenStatus (saveTokenChanges d tok ?t now) i = Some st" by (simp add: tokenStatus_def)
  moreover have "snd (updateTokenStatus d i s now) = saveTokenChanges d tok ?t now"
    using assms by (simp add: updateTokenStatus_def Let_def)
  ultimately show ?thesis by simp
qed

text \<open>
  Claim C6, amended. For a stored token: both cancellation paths reject it when it is
  completed, cancelled or no-show, and change nothing; \<^verbatim>\<open>handleNoShow\<close> leaves it
  no-show whatever its status was; promotion from the waiting queue leaves its status as
  it was; and \<^verbatim>\<open>updateTokenStatus\<close> checks only that the requested status is one
  of the five names, and then stores that status whatever the current one is.
\<close>

theorem token_status_updates:
  assumes "findTokenById d i = Some tok"
  shows "(t_status tok = Completed \<or> t_status tok = Cancelled \<or> t_status tok = NoShow \<longrightarrow>
            handleCancellation d i reason now = (Inl NotCancellable, d) \<and>
            cancelToken d i reason now = (Inl NotCancellable, d)) \<and>
         tokenStatus (snd (handleNoShow d i now)) i = Some NoShow \<and>
         tokenStatus (allocateFromWaitingQueue d doctorId now) i = Some (t_status tok) \<and>
         (case parseStatus s of
            None \<Rightarrow> updateTokenStatus d i s now = (Inl InvalidStatus, d)
          | Some st \<Rightarrow> tokenStatus (snd (updateTokenStatus d i s now)) i = Some st)"
proof -
  have a: "t_status tok = Completed \<or> t_status tok = Cancelled \<or> t_status tok = NoShow \<longrightarrow>
            handleCancellation d i reason now = (Inl NotCancellable, d) \<and>
            cancelToken d i reason now = (Inl NotCancellable, d)"
    by (simp add: handleCancellation_found[OF assms] cancelToken_found[OF assms])
  have b: "tokenStatus (snd (handleNoShow d i now)) i = Some NoShow"
    by (simp add: tokenStatus_def findTokenById_handleNoShow[OF assms])
  have c: "tokenStatus (allocateFromWaitingQueue d doctorId now) i = Some (t_status tok)"
    by (simp add: tokenStatus_def findTokenById_allocateFromWaitingQueue[OF assms])
  have e: "case parseStatus s of
            None \<Rightarrow> updateTokenStatus d i s now = (Inl InvalidStatus, d)
          | Some st \<Rightarrow> tokenStatus (snd (updateTokenStatus d i s now)) i = Some st"
    using updateTokenStatus_found[OF assms]
    by (cases "parseStatus s") (simp_all add: updateTokenStatus_def)
  from a b c e show ?thesis by blast
qed

text \<open>
  A cancelled token: cancelling it again is rejected on both paths, marking it no-show
  makes it no-show, promotion leaves it cancelled, an update to \<^verbatim>\<open>checked_in\<close>
  makes it checked in, and an update to an unknown status name is rejected.
\<close>

theorem token_status_updates_witness:
  "findTokenById exCancelledDb 20 = Some (exToken 20 10 Online 40 Cancelled 5) \<and>
   handleCancellation exCancelledDb 20 ''again'' 1 = (Inl NotCancellable, exCancelledDb) \<and>
   cancelToken exCancelledDb 20 ''again'' 1 = (Inl NotCancellable, exCancelledDb) \<and>
   tokenStatus (snd (handleNoShow exCancelledDb 20 1)) 20 = Some NoShow \<and>
   tokenStatus (allocateFromWaitingQueue exCancelledDb 1 1) 20 = Some Cancelled \<and>
   tokenStatus (snd (updateTokenStatus exCancelledDb 20 ''checked_in'' 1)) 20 = Some CheckedIn \<and>
   updateTokenStatus exCancelledDb 20 ''pending'' 1 = (Inl InvalidStatus, exCancelledDb)"
proof -
  have h: "findTokenById exCancelledDb 20 = Some (exToken 20 10 Online 40 Cancelled 5)"
    by code_simp
  have f: "t_status (exToken 20 10 Online 40 Cancelled 5) = Cancelled"
    by (simp add: exToken_def)
  have p: "parseStatus ''checked_in'' = Some CheckedIn" and q: "parseStatus ''pending'' = None"
    by code_simp+
  show ?thesis
    using h token_status_updates[OF h, of "''again''" 1 1 "''checked_in''"]
      token_status_updates[OF h, of "''again''" 1 1 "''pending''"]
    by (simp add: f p q)
qed

section \<open>Cancellation guards\<close>

text \<open>
  Claim C7, as stated, fails for \<^verbatim>\<open>handleCancellation\<close>: a booked token whose
  appointment time 5 lies before the current time 100 is cancelled successfully, although
  \<^verbatim>\<open>requestCancellation\<close> rejects the same token at the same time as already
  started.
\<close>

theorem handleCancellation_started_counterexample:
  "findTokenById exFullSlotDb 21 = Some (exToken 21 10 Online 40 Booked 5) \<and>
   appointmentTime (exToken 21 10 Online 40 Booked 5) < 100 \<and>
   requestCancellation exFullSlotDb 21 100 = Inl AlreadyStarted \<and>
   fst (handleCancellation exFullSlotDb 21 ''late'' 100) = Inr () \<and>
   tokenStatus (snd (handleCancellation exFullSlotDb 21 ''late'' 100)) 21 = Some Cancelled"
  by code_simp

lemma tokenStatus_cancelToken:
  assumes "findTokenById d i = Some tok"
  shows "tokenStatus (allocateFromWaitingQueue (snd (processCancellation d i reason now)) doc now) i
           = Some Cancelled"
  using findTokenById_allocateFromWaitingQueue[OF processCancellation_token[OF assms, of reason now]]
  by (simp add: tokenStatus_def)

lemma tokenStatus_handleCancellation:
  assumes "findTokenById d i = Some tok"
  shows "tokenStatus
           (allocateFromWaitingQueue
              (freeSlot
                 (saveTokenChanges d tok
                    (tok\<lparr>t_status := Cancelled, cancellationReason := Some reason\<rparr>) now)
                 (tok\<lparr>t_status := Cancelled, cancellationReason := Some reason\<rparr>))
              doc now) i = Some Cancelled"
proof -
  have "t_id tok = i" using assms by (rule findTokenById_id)
  then have "findTokenById
          (freeSlot
             (saveTokenChanges d tok
                (tok\<lparr>t_status := Cancelled, cancellationReason := Some reason\<rparr>) now)
             (tok\<lparr>t_status := Cancelled, cancellationReason := Some reason\<rparr>)) i =
        Some (touched tok (tok\<lparr>t_status := Cancelled, cancellationReason := Some reason\<rparr>) now)"
    using findTokenById_saveTokenChanges[OF assms] by simp
  from findTokenById_allocateFromWaitingQueue[OF this]
  show ?thesis by (simp add: tokenStatus_def)
qed

text \<open>
  Claim C7, amended. A missing token is rejected by both cancellation paths. For a stored
  token, the controller's path (\<^verbatim>\<open>requestCancellation\<close>, then
  \<^verbatim>\<open>processCancellation\<close>, then promotion) succeeds exactly when the token is
  booked or checked in and its appointment time has not passed; \<^verbatim>\<open>handleCancellation\<close>
  succeeds exactly when the token is booked or checked in, and does not look at the
  appointment time. On either path a rejection leaves the whole database as it was, and a
  success leaves the token cancelled.
\<close>

theorem cancellation_guard:
  "case findTokenById d i of
     None \<Rightarrow>
       cancelToken d i reason now = (Inl TokenNotFound, d) \<and>
       handleCancellation d i reason now = (Inl TokenNotFound, d)
   | Some tok \<Rightarrow>
       (fst (cancelToken d i reason now) = Inr ()) =
         ((t_status tok = Booked \<or> t_status tok = CheckedIn) \<and> now \<le> appointmentTime tok) \<and>
       (fst (cancelToken d i reason now) \<noteq> Inr () \<longrightarrow> snd (cancelToken d i reason now) = d) \<and>
       (fst (cancelToken d i reason now) = Inr () \<longrightarrow>
          tokenStatus (snd (cancelToken d i reason now)) i = Some Cancelled) \<and>
       (fst (handleCancellation d i reason now) = Inr ()) =
         (t_status tok = Booked \<or> t_status tok = CheckedIn) \<and>
       (fst (handleCancellation d i reason now) \<noteq> Inr () \<longrightarrow>
          snd (handleCancellation d i reason now) = d) \<and>
       (fst (handleCancellation d i reason now) = Inr () \<longrightarrow>
          tokenStatus (snd (handleCancellation d i reason now)) i = Some Cancelled)"
proof (cases "findTokenById d i")
  case None
  then show ?thesis
    by (simp add: cancelToken_def requestCancellation_def handleCancellation_def)
next
  case (Some tok)
  note c = cancelToken_found[OF Some, of reason now]
  note h = handleCancellation_found[OF Some, of reason now]
  note sc = tokenStatus_cancelToken[OF Some, where reason = reason and now = now and doc = "t_doctorId tok"]
  note sh = tokenStatus_handleCancellation[OF Some, where reason = reason and now = now and doc = "t_doctorId tok"]
  have t: "(\<not> (t_status tok = Completed \<or> t_status tok = Cancelled \<or> t_status tok = NoShow)) =
           (t_status tok = Booked \<or> t_status tok = CheckedIn)"
    by (rule terminal_cases)
  show ?thesis
  proof (cases "t_status tok = Completed \<or> t_status tok = Cancelled \<or> t_status tok = NoShow")
    case True
    then show ?thesis using Some c h t by auto
  next
    case False
    then show ?thesis using Some c h t sc sh by (cases "appointmentTime tok < now") auto
  qed
qed

text \<open>
  The booked token with appointment time 5: the controller's path rejects it at time 100
  and changes nothing, and cancels it at time 1.
\<close>

theorem cancellation_guard_witness:
  "findTokenById exFullSlotDb 21 = Some (exToken 21 10 Online 40 Booked 5) \<and>
   fst (cancelToken exFullSlotDb 21 ''late'' 100) \<noteq> Inr () \<and>
   snd (cancelToken exFullSlotDb 21 ''late'' 100) = exFullSlotDb \<and>
   fst (cancelToken exFullSlotDb 21 ''early'' 1) = Inr () \<and>
   tokenStatus (snd (cancelToken exFullSlotDb 21 ''early'' 1)) 21 = Some Cancelled \<and>
   fst (handleCancellation exFullSlotDb 21 ''late'' 100) = Inr ()"
proof -
  have h: "findTokenById exFullSlotDb 21 = Some (exToken 21 10 Online 40 Booked 5)"
    by code_simp
  have f: "t_status (exToken 21 10 Online 40 Booked 5) = Booked"
    "appointmentTime (exToken 21 10 Online 40 Booked 5) = 5"
    by (simp_all add: exToken_def)
  show ?thesis
    using h cancellation_guard[of exFullSlotDb 21 "''late''" 100]
      cancellation_guard[of exFullSlotDb 21 "''early''" 1]
    by (simp add: f)
qed

section \<open>Refund tiers\<close>

lemma real_hours_ge:
  "(real_of_int x / (1000 * 60 * 60) \<ge> 24) = (x \<ge> 86400000)"
  "(real_of_int x / (1000 * 60 * 60) \<ge> 12) = (x \<ge> 43200000)"
  "(real_of_int x / (1000 * 60 * 60) \<ge> 6) = (x \<ge> 21600000)"
  by (simp_all add: le_divide_eq)

lemma requestRefund_cancelled:
  assumes "findTokenById d i = Some tok" and "t_status tok = Cancelled"
  shows "requestRefund d i =
           (Inr (if appointmentTime tok - updatedAt tok \<ge> 24 * 3600000 then 100
                 else if appointmentTime tok - updatedAt tok \<ge> 12 * 3600000 then 75
                 else if appointmentTime tok - updatedAt tok \<ge> 6 * 3600000 then 50
                 else 0), d)"
  using assms by (simp add: requestRefund_def Let_def real_hours_ge)

lemma touched_cancel:
  assumes "t_status tok \<noteq> Cancelled"
  shows "touched tok (tok\<lparr>t_status := Cancelled, cancellationReason := Some reason\<rparr>) now =
           tok\<lparr>t_status := Cancelled, cancellationReason := Some reason, updatedAt := now\<rparr>"
proof -
  have "tok\<lparr>t_status := Cancelled, cancellationReason := Some reason\<rparr> \<noteq> tok"
    using assms by (metis token.select_convs(7) token.surjective token.update_convs(7) token.update_convs(11))
  then show ?thesis by (simp add: touched_def)
qed

text \<open>
  Claim C8. \<^verbatim>\<open>requestRefund\<close> never changes the database. For a cancelled token the
  refund percentage depends only on the time (in milliseconds) between the token's last
  written save, which the code takes as the cancellation time, and its appointment: at
  least 24 hours gives 100, at least 12 hours 75, at least 6 hours 50, anything less 0; a
  token that is not cancelled gets no refund answer. Since \<^verbatim>\<open>processCancellation\<close>
  saves the token at the moment of cancellation, a refund requested on the state it
  leaves for a token that was not cancelled before is the tier of the time remaining
  until the appointment at that moment.
\<close>

theorem requestRefund_tier:
  assumes "findTokenById d i = Some tok"
  shows "snd (requestRefund d i) = d \<and>
         (t_status tok = Cancelled \<longrightarrow>
            fst (requestRefund d i) =
              Inr (if appointmentTime tok - updatedAt tok \<ge> 24 * 3600000 then 100
                   else if appointmentTime tok - updatedAt tok \<ge> 12 * 3600000 then 75
                   else if appointmentTime tok - updatedAt tok \<ge> 6 * 3600000 then 50
                   else 0)) \<and>
         (t_status tok \<noteq> Cancelled \<longrightarrow>
            fst (requestRefund d i) = Inl OnlyCancelledRefund \<and>
            (let d1 = snd (processCancellation d i reason now)
             in requestRefund d1 i =
                  (Inr (if appointmentTime tok - now \<ge> 24 * 3600000 then 100
                        else if appointmentTime tok - now \<ge> 12 * 3600000 then 75
                        else if appointmentTime tok - now \<ge> 6 * 3600000 then 50
                        else 0), d1)))"
proof -
  have a: "snd (requestRefund d i) = d"
    by (simp add: requestRefund_def Let_def split: option.splits)
  have b: "t_status tok = Cancelled \<longrightarrow>
            fst (requestRefund d i) =
              Inr (if appointmentTime tok - updatedAt tok \<ge> 24 * 3600000 then 100
                   else if appointmentTime tok - updatedAt tok \<ge> 12 * 3600000 then 75
                   else if appointmentTime tok - updatedAt tok \<ge> 6 * 3600000 then 50
                   else 0)"
    using requestRefund_cancelled[OF assms] by simp
  have c: "t_status tok \<noteq> Cancelled \<longrightarrow> fst (requestRefund d i) = Inl OnlyCancelledRefund"
    using assms by (simp add: requestRefund_def)
  have e: "t_status tok \<noteq> Cancelled \<longrightarrow>
           (let d1 = snd (processCancellation d i reason now)
            in requestRefund d1 i =
               (Inr (if appointmentTime tok - now \<ge> 24 * 3600000 then 100
                     else if appointmentTime tok - now \<ge> 12 * 3600000 then 75
                     else if appointmentTime tok - now \<ge> 6 * 3600000 then 50
                     else 0), d1))"
  proof
    assume n: "t_status tok \<noteq> Cancelled"
    have "findTokenById (snd (processCancellation d i reason now)) i =
            Some (tok\<lparr>t_status := Cancelled, cancellationReason := Some reason,
                      updatedAt := now\<rparr>)"
      using processCancellation_token[OF assms, of reason now] touched_cancel[OF n] by simp
    from requestRefund_cancelled[OF this]
    show "let d1 = snd (processCancellation d i reason now)
            in requestRefund d1 i =
               (Inr (if appointmentTime tok - now \<ge> 24 * 3600000 then 100
                     else if appointmentTime tok - now \<ge> 12 * 3600000 then 75
                     else if appointmentTime tok - now \<ge> 6 * 3600000 then 50
                     else 0), d1)"
      by (simp add: Let_def)
  qed
  from a b c e show ?thesis by blast
qed

text \<open>
  The appointment is at 25 hours; while the token is booked there is no refund answer;
  cancelled at time 0 the refund is 100, cancelled at 15 hours (10 hours before the
  appointment) it is 50. A token cancelled 5 milliseconds before its appointment gets 0.
\<close>

theorem requestRefund_tier_witness:
  "findTokenById exRefundDb 20 = Some (exToken 20 10 Online 40 Booked 90000000) \<and>
   requestRefund exRefundDb 20 = (Inl OnlyCancelledRefund, exRefundDb) \<and>
   requestRefund (snd (processCancellation exRefundDb 20 ''late'' 0)) 20 =
     (Inr 100, snd (processCancellation exRefundDb 20 ''late'' 0)) \<and>
   requestRefund (snd (processCancellation exRefundDb 20 ''late'' 54000000)) 20 =
     (Inr 50, snd (processCancellation exRefundDb 20 ''late'' 54000000)) \<and>
   findTokenById exCancelledDb 20 = Some (exToken 20 10 Online 40 Cancelled 5) \<and>
   requestRefund exCancelledDb 20 = (Inr 0, exCancelledDb)"
proof -
  have h: "findTokenById exRefundDb 20 = Some (exToken 20 10 Online 40 Booked 90000000)"
    by code_simp
  have apt: "appointmentTime (exToken 20 10 Online 40 Booked 90000000) = 90000000"
    "t_status (exToken 20 10 Online 40 Booked 90000000) = Booked"
    by (simp_all add: exToken_def)
  have k: "findTokenById exCancelledDb 20 = Some (exToken 20 10 Online 40 Cancelled 5)"
    by code_simp
  have can: "appointmentTime (exToken 20 10 Online 40 Cancelled 5) = 5"
    "updatedAt (exToken 20 10 Online 40 Cancelled 5) = 0"
    "t_status (exToken 20 10 Online 40 Cancelled 5) = Cancelled"
    by (simp_all add: exToken_def)
  have r0: "requestRefund exRefundDb 20 = (Inl OnlyCancelledRefund, exRefundDb)"
    using requestRefund_tier[OF h, of "''late''" 0] by (simp add: apt prod_eq_iff)
  have r1: "requestRefund (snd (processCancellation exRefundDb 20 ''late'' 0)) 20 =
     (Inr 100, snd (processCancellation exRefundDb 20 ''late'' 0))"
    using requestRefund_tier[OF h, of "''late''" 0] by (simp add: Let_def apt)
  have r2: "requestRefund (snd (processCancellation exRefundDb 20 ''late'' 54000000)) 20 =
     (Inr 50, snd (processCancellation exRefundDb 20 ''late'' 54000000))"
    using requestRefund_tier[OF h, of "''late''" 54000000] by (simp add: Let_def apt)
  have r3: "requestRefund exCancelledDb 20 = (Inr 0, exCancelledDb)"
    using requestRefund_tier[OF k, of "''late''" 0] by (simp add: can prod_eq_iff)
  from h k r0 r1 r2 r3 show ?thesis by blast
qed

section \<open>Capacity override\<close>

lemma ceil_ge:
  "0 \<le> (m::int) \<Longrightarrow> m \<le> \<lceil>real_of_int m * 1.5\<rceil>"
  "0 \<le> (m::int) \<Longrightarrow> m \<le> \<lceil>real_of_int m * 1.25\<rceil>"
  by (simp_all add: le_ceiling_iff)

text \<open>
  Claim C9, as stated, fails. The doctor's only slot has capacity 1 and holds one booked
  token. Two emergencies are fast-tracked into it; no later slot exists, so nobody is
  displaced and the occupancy becomes 3. The override at level \<^verbatim>\<open>high\<close> then
  sets the capacity to 2, below the slot's current occupancy.
\<close>

theorem overrideSlotRules_below_occupancy_counterexample:
  "map (\<lambda>s. (currentOccupancy s, maxCapacity s)) (slots exEmergencyDb) = [(1, 1)] \<and>
   map (\<lambda>s. (currentOccupancy s, maxCapacity s))
     (slots (snd (fastTrackEmergency (snd (fastTrackEmergency exEmergencyDb 9 1 7)) 9 1 8))) =
     [(3, 1)] \<and>
   fst (overrideSlotRules
          (snd (fastTrackEmergency (snd (fastTrackEmergency exEmergencyDb 9 1 7)) 9 1 8))
          10 ''high'') = Inr (1, 2) \<and>
   map (\<lambda>s. (currentOccupancy s, maxCapacity s))
     (slots (snd (overrideSlotRules
                    (snd (fastTrackEmergency (snd (fastTrackEmergency exEmergencyDb 9 1 7)) 9 1 8))
                    10 ''high''))) = [(3, 2)]"
  by code_simp

text \<open>
  Claim C9, amended. On an existing slot with a non-negative capacity,
  \<^verbatim>\<open>overrideSlotRules\<close> succeeds and sets that slot's capacity to the capacity times
  1.5 (level critical) or times 1.25 (level high), rounded up to an integer; any other
  level leaves it as it is. The new capacity is never below the old one, so it is not
  below the occupancy of a slot whose occupancy was within its capacity. The slot's
  occupancy and token list, every slot with another id, the tokens and the waiting queue
  are unchanged.
\<close>

theorem overrideSlotRules_scoped:
  assumes "findSlotById d sid = Some s" and "0 \<le> maxCapacity s"
  shows "\<exists>newCap d'.
           overrideSlotRules d sid level = (Inr (maxCapacity s, newCap), d') \<and>
           newCap = (if level = ''critical'' then \<lceil>real_of_int (maxCapacity s) * 1.5\<rceil>
                     else if level = ''high'' then \<lceil>real_of_int (maxCapacity s) * 1.25\<rceil>
                     else maxCapacity s) \<and>
           maxCapacity s \<le> newCap \<and>
           (currentOccupancy s \<le> maxCapacity s \<longrightarrow> currentOccupancy s \<le> newCap) \<and>
           findSlotById d' sid = Some (s\<lparr>maxCapacity := newCap\<rparr>) \<and>
           length (slots d') = length (slots d) \<and>
           (\<forall>k < length (slots d). s_id (slots d ! k) \<noteq> sid \<longrightarrow> slots d' ! k = slots d ! k) \<and>
           tokens d' = tokens d \<and> waitings d' = waitings d \<and> nextId d' = nextId d"
proof -
  have sid: "s_id s = sid"
    using assms(1) by (auto simp: findSlotById_def find_Some_iff)
  define newCap where
    "newCap = (if level = ''critical'' then \<lceil>real_of_int (maxCapacity s) * 1.5\<rceil>
               else if level = ''high'' then \<lceil>real_of_int (maxCapacity s) * 1.25\<rceil>
               else maxCapacity s)"
  have ge: "maxCapacity s \<le> newCap"
    using assms(2) ceil_ge[of "maxCapacity s"] by (simp add: newCap_def)
  have run: "overrideSlotRules d sid level =
               (Inr (maxCapacity s, newCap), saveSlot d (s\<lparr>maxCapacity := newCap\<rparr>))"
    using assms(1) by (simp add: overrideSlotRules_def Let_def newCap_def)
  have found: "findSlotById (saveSlot d (s\<lparr>maxCapacity := newCap\<rparr>)) sid =
                 Some (s\<lparr>maxCapacity := newCap\<rparr>)"
    using find_replace[of "\<lambda>x. s_id x = sid" "slots d" s "s\<lparr>maxCapacity := newCap\<rparr>"]
      assms(1) sid
    by (simp add: findSlotById_def saveSlot_def)
  show ?thesis
    using run ge found sid by (auto simp: saveSlot_def newCap_def)
qed

text \<open>A full slot of capacity 2: both levels raise the capacity to 3.\<close>

theorem overrideSlotRules_scoped_witness:
  "findSlotById exFullSlotDb 10 = Some (exSlot 10 5 2 2 Full [20, 21]) \<and>
   0 \<le> maxCapacity (exSlot 10 5 2 2 Full [20, 21]) \<and>
   fst (overrideSlotRules exFullSlotDb 10 ''critical'') = Inr (2, 3) \<and>
   fst (overrideSlotRules exFullSlotDb 10 ''high'') = Inr (2, 3)"
proof -
  have h1: "findSlotById exFullSlotDb 10 = Some (exSlot 10 5 2 2 Full [20, 21])"
    by code_simp
  have h2: "0 \<le> maxCapacity (exSlot 10 5 2 2 Full [20, 21])"
    by (simp add: exSlot_def)
  have m: "maxCapacity (exSlot 10 5 2 2 Full [20, 21]) = 2"
    by (simp add: exSlot_def)
  have c1: "\<lceil>real_of_int 2 * 1.5\<rceil> = (3::int)" by (simp add: ceiling_eq_iff)
  have c2: "\<lceil>real_of_int 2 * 1.25\<rceil> = (3::int)" by (simp add: ceiling_eq_iff)
  show ?thesis
    using h1 h2 overrideSlotRules_scoped[OF h1 h2, of "''critical''"]
      overrideSlotRules_scoped[OF h1 h2, of "''high''"]
    by (auto simp: m c1 c2)
qed

section \<open>Priority scores\<close>

lemma parseSource_None_getProperty:
  "parseSource s = None \<Longrightarrow> map_of PRIORITY_LEVELS s = None"
  by (auto simp: parseSource_def PRIORITY_LEVELS_def split: if_splits)

text \<open>
  The five categories get their table scores, and a string that is neither a category nor
  a member of \<^verbatim>\<open>Object.prototype\<close> gets 0.
\<close>

lemma calculatePriorityScore_known:
  "calculatePriorityScore (sourceName src) =
     Num (case src of Emergency \<Rightarrow> 100 | PaidPriority \<Rightarrow> 80 | FollowUp \<Rightarrow> 60
          | Online \<Rightarrow> 40 | WalkIn \<Rightarrow> 20)"
  by (cases src)
    (simp_all add: calculatePriorityScore_def getProperty_def orZero_def PRIORITY_LEVELS_def)

lemma calculatePriorityScore_unknown:
  assumes "parseSource s = None" and "s \<notin> set objectPrototypeNames"
  shows "calculatePriorityScore s = Num 0"
  using assms parseSource_None_getProperty[OF assms(1)]
  by (simp add: calculatePriorityScore_def getProperty_def orZero_def)

text \<open>
  Claim C10. The source string \<^verbatim>\<open>constructor\<close> is none of the five categories, yet
  \<^verbatim>\<open>calculatePriorityScore\<close> does not return 0 for it: the property read finds
  \<^verbatim>\<open>Object.prototype.constructor\<close>, which is truthy, so \<^verbatim>\<open>|| 0\<close> keeps it.
\<close>

theorem calculatePriorityScore_inherited_name:
  "parseSource ''constructor'' = None \<and>
   calculatePriorityScore ''constructor'' = Inherited ''constructor'' \<and>
   calculatePriorityScore ''constructor'' \<noteq> Num 0"
  by code_simp

section \<open>The slot searches of AllocationService\<close>

text \<open>
  Whatever the database holds, the two searches that compare the occupancy with
  \<^verbatim>\<open>'$maxCapacity'\<close> fail. So \<^verbatim>\<open>reallocateLowerPriorityToken\<close> always
  answers \<^verbatim>\<open>false\<close> and moves nobody, and \<^verbatim>\<open>allocateFromWaitingQueue\<close>
  leaves the database as it is.
\<close>

theorem slot_searches_fail:
  "findAvailableSlot d doctorId preferredTime source = Inl CastError \<and>
   findNextAvailableSlotAfter d dt doctorId = Inl CastError \<and>
   reallocateLowerPriorityToken d slot newTokenPriority doctorId now = (False, d, slot) \<and>
   allocateFromWaitingQueue d doctorId now = d"
  by (simp only: findAvailableSlot_fails findNextAvailableSlotAfter_fails
        reallocateLowerPriorityToken_refuses allocateFromWaitingQueue_unchanged simp_thms)

section \<open>Allocation of a token\<close>

lemma allocateToken_outcome:
  "allocateToken d req now =
     (case (case preferredSlotId req of None \<Rightarrow> None | Some ps \<Rightarrow> findSlotById d ps) of
        None \<Rightarrow> (Inl CastError, d)
      | Some ts \<Rightarrow>
          if s_doctorId ts \<noteq> r_doctorId req then (Inl SlotDoctorMismatch, d)
          else if currentOccupancy ts \<ge> maxCapacity ts then (Inl CastError, d)
          else createToken d req (calculatePriorityScore (r_source req)) ts now)"
  by (simp add: allocateToken_def Let_def findAvailableSlot_fails split: option.splits)

lemma createToken_tokens:
  "tokens (snd (createToken d req p ts now)) = tokens d \<or>
   (\<exists>tok. tokens (snd (createToken d req p ts now)) = tokens d @ [tok])"
  by (auto simp: createToken_def Let_def split: option.splits js_value.splits)

text \<open>
  \<^verbatim>\<open>allocateToken\<close> never changes a stored token; at most it adds the new one.
  It stores a token only in a preferred slot that has a free place; whenever it would
  search for another slot, the search fails and \<^verbatim>\<open>allocateToken\<close> fails with
  it, so that it neither displaces an occupant nor reaches the waiting queue.
\<close>

theorem allocateToken_never_displaces:
  "tokens (snd (allocateToken d req now)) = tokens d \<or>
   (\<exists>tok. tokens (snd (allocateToken d req now)) = tokens d @ [tok])"
  using createToken_tokens[of d req "calculatePriorityScore (r_source req)" _ now]
  by (auto simp: allocateToken_outcome split: option.splits)

lemma findSlotById_member: "findSlotById d i = Some s \<Longrightarrow> s \<in> set (slots d)"
  by (auto simp: findSlotById_def find_Some_iff)

lemma createToken_invariant:
  assumes "slotInvariant d" and "ts \<in> set (slots d)" and "currentOccupancy ts < maxCapacity ts"
  shows "slotInvariant (snd (createToken d req p ts now))"
proof -
  have ts: "currentOccupancy ts = int (length (allocatedTokens ts))"
    using assms(1,2) by (auto simp: slotInvariant_def list_all_iff)
  show ?thesis
    using assms(1,3) ts
    by (auto simp: createToken_def Let_def slotInvariant_def list_all_iff saveSlot_def
          insertToken_def split: option.splits js_value.splits)
qed

text \<open>
  If every slot's occupancy equals the number of its tokens and is within its capacity,
  this is still so after \<^verbatim>\<open>allocateToken\<close>.
\<close>

theorem allocateToken_preserves_slotInvariant:
  assumes "slotInvariant d"
  shows "slotInvariant (snd (allocateToken d req now))"
proof (cases "case preferredSlotId req of None \<Rightarrow> None | Some ps \<Rightarrow> findSlotById d ps")
  case None
  then show ?thesis using assms by (simp add: allocateToken_outcome)
next
  case (Some ts)
  then have mem: "ts \<in> set (slots d)"
    by (auto split: option.splits dest: findSlotById_member)
  show ?thesis
  proof (cases "s_doctorId ts \<noteq> r_doctorId req \<or> currentOccupancy ts \<ge> maxCapacity ts")
    case True
    then show ?thesis using assms Some by (auto simp: allocateToken_outcome)
  next
    case False
    then have "allocateToken d req now =
                 createToken d req (calculatePriorityScore (r_source req)) ts now"
      using Some by (simp add: allocateToken_outcome)
    then show ?thesis
      using createToken_invariant[OF assms mem, of req "calculatePriorityScore (r_source req)" now]
        False by simp
  qed
qed

text \<open>An online request is admitted to the free slot of capacity 1, which becomes full.\<close>

theorem allocateToken_preserves_slotInvariant_witness:
  "slotInvariant exPromoteDb \<and>
   slotInvariant (snd (allocateToken exPromoteDb exRequest 1)) \<and>
   map (\<lambda>s. (currentOccupancy s, allocatedTokens s, maxCapacity s, s_status s))
     (slots (snd (allocateToken exPromoteDb exRequest 1))) = [(1, [100], 1, Full)]"
proof -
  have h: "slotInvariant exPromoteDb" by code_simp
  have e: "map (\<lambda>s. (currentOccupancy s, allocatedTokens s, maxCapacity s, s_status s))
     (slots (snd (allocateToken exPromoteDb exRequest 1))) = [(1, [100], 1, Full)]"
    by code_simp
  from h allocateToken_preserves_slotInvariant[OF h, of exRequest 1] e show ?thesis by blast
qed


section \<open>Renumbering of the waiting queue\<close>

lemma find_by_distinct_key:
  assumes "distinct (map f xs)" and "x \<in> set xs"
  shows "find (\<lambda>y. f y = f x) xs = Some x"
  using assms by (induction xs) (auto simp: image_iff)

lemma findWaitingById_updateWaiting:
  assumes "\<And>x. w_id (g x) = w_id x"
  shows "findWaitingById (updateWaiting d i g) j =
           (if j = i then map_option g (findWaitingById d i) else findWaitingById d j)"
proof -
  have "find (\<lambda>w. w_id w = j) (map (\<lambda>x. if w_id x = i then g x else x) (waitings d)) =
          map_option (\<lambda>x. if w_id x = i then g x else x) (find (\<lambda>w. w_id w = j) (waitings d))"
    by (rule find_map_preserving) (simp add: assms)
  then show ?thesis
    by (cases "find (\<lambda>w. w_id w = j) (waitings d)")
      (auto simp: findWaitingById_def updateWaiting_def dest: find_Some_holds)
qed

lemma fold_renumber_position:
  assumes "distinct (map (\<lambda>e. w_id (snd e)) es)"
  shows "positionOf
           (fold (\<lambda>(i, w) acc. updateWaiting acc (w_id w) (\<lambda>x. x\<lparr>queuePosition := int i + 1\<rparr>))
              es acc) j =
         (case find (\<lambda>e. w_id (snd e) = j) es of
            None \<Rightarrow> positionOf acc j
          | Some e \<Rightarrow> map_option (\<lambda>x. int (fst e) + 1) (findWaitingById acc j))"
  using assms
proof (induction es arbitrary: acc)
  case Nil
  show ?case by simp
next
  case (Cons e es)
  obtain i w where e: "e = (i, w)" by (cases e)
  let ?acc = "updateWaiting acc (w_id w) (\<lambda>x. x\<lparr>queuePosition := int i + 1\<rparr>)"
  have dist: "distinct (map (\<lambda>e. w_id (snd e)) es)" and notin: "w_id w \<notin> (\<lambda>e. w_id (snd e)) ` set es"
    using Cons.prems by (auto simp: e)
  have upd: "findWaitingById ?acc k =
               (if k = w_id w then map_option (\<lambda>x. x\<lparr>queuePosition := int i + 1\<rparr>)
                                     (findWaitingById acc (w_id w))
                else findWaitingById acc k)" for k
    by (rule findWaitingById_updateWaiting) simp
  note IH = Cons.IH[OF dist, of ?acc]
  show ?case
  proof (cases "w_id w = j")
    case True
    have "w_id (snd x) \<noteq> j" if "x \<in> set es" for x
      using that notin True by (metis imageI)
    then have none: "find (\<lambda>e. w_id (snd e) = j) es = None"
      unfolding find_None_iff by blast
    have "positionOf ?acc j = map_option (\<lambda>x. int i + 1) (findWaitingById acc j)"
      using upd[of j] True by (simp add: positionOf_def option.map_comp comp_def)
    then show ?thesis using IH none True by (simp add: e split: option.splits)
  next
    case False
    have "positionOf ?acc j = positionOf acc j" "findWaitingById ?acc j = findWaitingById acc j"
      using upd[of j] False by (simp_all add: positionOf_def)
    then show ?thesis using IH False by (simp add: e split: option.splits)
  qed
qed

lemma find_enumerate_distinct:
  assumes "distinct (map f xs)" and "k < length xs"
  shows "find (\<lambda>e. f (snd e) = f (xs ! k)) (enumerate n xs) = Some (n + k, xs ! k)"
  using assms
proof (induction xs arbitrary: n k)
  case Nil
  then show ?case by simp
next
  case (Cons x xs)
  show ?case
  proof (cases k)
    case 0
    then show ?thesis by simp
  next
    case (Suc m)
    then have "f x \<noteq> f (xs ! m)" using Cons.prems by auto
    then show ?thesis using Cons.IH[of m "Suc n"] Cons.prems Suc by simp
  qed
qed

text \<open>
  \<^verbatim>\<open>updateQueuePositions\<close>, which \<^verbatim>\<open>cancelWaiting\<close> and each promotion
  call, numbers the doctor's waiting entries 1, 2, ... in the order of their old
  positions and leaves them waiting.
\<close>

theorem updateQueuePositions_dense:
  assumes "distinct (map w_id (waitings d))"
  shows "let ws = sort_key queuePosition
                    (filter (\<lambda>w. w_doctorId w = doctorId \<and> w_status w = Waiting) (waitings d))
         in \<forall>k<length ws.
              positionOf (updateQueuePositions d doctorId) (w_id (ws ! k)) = Some (int k + 1) \<and>
              waitingCore (updateQueuePositions d doctorId) (w_id (ws ! k)) =
                Some (Waiting, allocatedTokenId (ws ! k))"
proof -
  let ?ws = "sort_key queuePosition
               (filter (\<lambda>w. w_doctorId w = doctorId \<and> w_status w = Waiting) (waitings d))"
  have sub: "set ?ws \<subseteq> set (waitings d)" by auto
  have "distinct (waitings d)" and inj: "inj_on w_id (set (waitings d))"
    using assms by (simp_all add: distinct_map)
  then have dws: "distinct (map w_id ?ws)"
    using sub by (auto simp: distinct_map intro: inj_on_subset)
  then have den: "distinct (map (\<lambda>e. w_id (snd e)) (enumerate 0 ?ws))"
    by (simp add: enumerate_eq_zip map_snd_zip_take flip: map_map[unfolded comp_def])
  have "positionOf (updateQueuePositions d doctorId) (w_id (?ws ! k)) = Some (int k + 1) \<and>
        waitingCore (updateQueuePositions d doctorId) (w_id (?ws ! k)) =
          Some (Waiting, allocatedTokenId (?ws ! k))" if k: "k < length ?ws" for k
  proof -
    have mem: "?ws ! k \<in> set (waitings d)" and st: "w_status (?ws ! k) = Waiting"
      using nth_mem[OF k] by auto
    have found: "findWaitingById d (w_id (?ws ! k)) = Some (?ws ! k)"
      using find_by_distinct_key[OF assms mem] by (simp add: findWaitingById_def)
    have "positionOf (updateQueuePositions d doctorId) (w_id (?ws ! k)) = Some (int k + 1)"
      using fold_renumber_position[OF den, of d "w_id (?ws ! k)"]
        find_enumerate_distinct[OF dws k, of 0] found
      by (simp add: updateQueuePositions_def Let_def)
    moreover have "waitingCore d (w_id (?ws ! k)) = Some (Waiting, allocatedTokenId (?ws ! k))"
      using found st by (simp add: waitingCore_def)
    then have "waitingCore (updateQueuePositions d doctorId) (w_id (?ws ! k)) =
          Some (Waiting, allocatedTokenId (?ws ! k))"
      by (simp only: updateQueuePositions_frame)
    ultimately show ?thesis by simp
  qed
  then show ?thesis by (simp add: Let_def)
qed

text \<open>
  After the expiry of the entry at position 1 the entry at position 2 is the only one
  waiting; the renumbering gives it position 1.
\<close>

theorem updateQueuePositions_dense_witness:
  "distinct (map w_id (waitings (snd (cleanExpiredEntries exExpiryDb 10)))) \<and>
   map w_id (sort_key queuePosition
               (filter (\<lambda>w. w_doctorId w = 1 \<and> w_status w = Waiting)
                  (waitings (snd (cleanExpiredEntries exExpiryDb 10))))) = [31] \<and>
   positionOf (snd (cleanExpiredEntries exExpiryDb 10)) 31 = Some 2 \<and>
   positionOf (updateQueuePositions (snd (cleanExpiredEntries exExpiryDb 10)) 1) 31 = Some 1"
proof -
  let ?d = "snd (cleanExpiredEntries exExpiryDb 10)"
  let ?ws = "sort_key queuePosition
               (filter (\<lambda>w. w_doctorId w = 1 \<and> w_status w = Waiting) (waitings ?d))"
  have h: "distinct (map w_id (waitings ?d))" by code_simp
  have ids: "map w_id ?ws = [31]" by code_simp
  have p: "positionOf ?d 31 = Some 2" by code_simp
  have len: "0 < length ?ws" by code_simp
  have i0: "w_id (?ws ! 0) = 31" by code_simp
  have all: "\<forall>k<length ?ws.
               positionOf (updateQueuePositions ?d 1) (w_id (?ws ! k)) = Some (int k + 1) \<and>
               waitingCore (updateQueuePositions ?d 1) (w_id (?ws ! k)) =
                 Some (Waiting, allocatedTokenId (?ws ! k))"
    using updateQueuePositions_dense[OF h, of 1] by (simp only: Let_def)
  from all[rule_format, OF len]
  have "positionOf (updateQueuePositions ?d 1) (w_id (?ws ! 0)) = Some (int 0 + 1)"
    by (rule conjunct1)
  then have r: "positionOf (updateQueuePositions ?d 1) 31 = Some 1"
    by (simp only: i0 of_nat_0 add_0)
  from h ids p r show ?thesis by (intro conjI)
qed

section \<open>Scores of the categories\<close>

text \<open>
  Each of the five categories gets its table score, and a source string that is neither a
  category nor the name of a member of \<^verbatim>\<open>Object.prototype\<close> gets 0, which is below
  every category's score.
\<close>

theorem calculatePriorityScore_table:
  "calculatePriorityScore (sourceName src) =
     Num (case src of Emergency \<Rightarrow> 100 | PaidPriority \<Rightarrow> 80 | FollowUp \<Rightarrow> 60
          | Online \<Rightarrow> 40 | WalkIn \<Rightarrow> 20) \<and>
   js_lt 0 (calculatePriorityScore (sourceName src)) \<and>
   (parseSource s = None \<and> s \<notin> set objectPrototypeNames \<longrightarrow>
      calculatePriorityScore s = Num 0)"
proof -
  have a: "calculatePriorityScore (sourceName src) =
     Num (case src of Emergency \<Rightarrow> 100 | PaidPriority \<Rightarrow> 80 | FollowUp \<Rightarrow> 60
          | Online \<Rightarrow> 40 | WalkIn \<Rightarrow> 20)"
    by (rule calculatePriorityScore_known)
  have b: "js_lt 0 (calculatePriorityScore (sourceName src))"
    unfolding a by (cases src) simp_all
  have c: "parseSource s = None \<and> s \<notin> set objectPrototypeNames \<longrightarrow>
      calculatePriorityScore s = Num 0"
    using calculatePriorityScore_unknown[of s] by blast
  from a b c show ?thesis by blast
qed

theorem calculatePriorityScore_table_witness:
  "parseSource ''referral'' = None \<and> ''referral'' \<notin> set objectPrototypeNames \<and>
   calculatePriorityScore ''referral'' = Num 0 \<and>
   calculatePriorityScore ''walk_in'' = Num 20"
proof -
  have a: "parseSource ''referral'' = None" and b: "''referral'' \<notin> set objectPrototypeNames"
    by code_simp+
  have n: "sourceName WalkIn = ''walk_in''" by simp
  from calculatePriorityScore_table[of WalkIn "''referral''"] a b
  show ?thesis by (simp add: n)
qed

end
